theory Spec2Isabelle
  imports Complex_Main
begin

section \<open>JavaScript values and arithmetic\<close>

text \<open>
  The values that reach \<^verbatim>\<open>plane.js\<close>: \<^verbatim>\<open>undefined\<close>, \<^verbatim>\<open>NaN\<close> and the finite
  numbers. A finite double is the real number it denotes. Strings, objects, booleans,
  \<^verbatim>\<open>null\<close>, infinite doubles and the sign of zero are not modelled.
\<close>

datatype jsval = Undefined | NaN | Num real

text \<open>
  The rounding of double-precision results and the conversion done by a store into a
  \<^verbatim>\<open>Float32Array\<close> are parameters: nothing below depends on how they round, except where
  a statement says so.
\<close>

record fparith =
  round64 :: "real \<Rightarrow> real"
  round32 :: "real \<Rightarrow> real"

text \<open>The arithmetic that rounds nothing, for evaluating the program on small inputs.\<close>

definition exact :: fparith where
  "exact = \<lparr>round64 = (\<lambda>x. x), round32 = (\<lambda>x. x)\<rparr>"

text \<open>\<^verbatim>\<open>a * b\<close>: \<^verbatim>\<open>undefined\<close> converts to \<^verbatim>\<open>NaN\<close>, and \<^verbatim>\<open>NaN\<close> propagates.\<close>

fun js_mul :: "fparith \<Rightarrow> jsval \<Rightarrow> jsval \<Rightarrow> jsval" where
  "js_mul fp (Num a) (Num b) = Num (round64 fp (a * b))"
| "js_mul fp _ _ = NaN"

text \<open>\<^verbatim>\<open>a - b\<close>.\<close>

fun js_sub :: "fparith \<Rightarrow> jsval \<Rightarrow> jsval \<Rightarrow> jsval" where
  "js_sub fp (Num a) (Num b) = Num (round64 fp (a - b))"
| "js_sub fp _ _ = NaN"

text \<open>
  \<^verbatim>\<open>a / b\<close>. Dividing by zero gives an infinity or \<^verbatim>\<open>NaN\<close> in JavaScript; the divisors
  of this program are \<^verbatim>\<open>2\<close>, \<^verbatim>\<open>gridX\<close> and \<^verbatim>\<open>gridY\<close>, none of which is zero, so that
  case is folded into \<^verbatim>\<open>NaN\<close>.
\<close>

fun js_div :: "fparith \<Rightarrow> jsval \<Rightarrow> jsval \<Rightarrow> jsval" where
  "js_div fp (Num a) (Num b) = (if b = 0 then NaN else Num (round64 fp (a / b)))"
| "js_div fp _ _ = NaN"

text \<open>Unary minus, which is exact.\<close>

fun js_neg :: "jsval \<Rightarrow> jsval" where
  "js_neg (Num a) = Num (- a)"
| "js_neg _ = NaN"

text \<open>\<^verbatim>\<open>Math.floor\<close>.\<close>

fun js_floor :: "jsval \<Rightarrow> jsval" where
  "js_floor (Num a) = Num (of_int \<lfloor>a\<rfloor>)"
| "js_floor _ = NaN"

text \<open>\<^verbatim>\<open>a < b\<close> and \<^verbatim>\<open>a > b\<close>: false as soon as one side is not a number.\<close>

fun js_lt :: "jsval \<Rightarrow> jsval \<Rightarrow> bool" where
  "js_lt (Num a) (Num b) = (a < b)"
| "js_lt _ _ = False"

fun js_gt :: "jsval \<Rightarrow> jsval \<Rightarrow> bool" where
  "js_gt (Num a) (Num b) = (a > b)"
| "js_gt _ _ = False"

text \<open>\<^verbatim>\<open>a === b\<close>: \<^verbatim>\<open>NaN\<close> equals nothing, itself included.\<close>

fun strict_eq :: "jsval \<Rightarrow> jsval \<Rightarrow> bool" where
  "strict_eq Undefined Undefined = True"
| "strict_eq (Num a) (Num b) = (a = b)"
| "strict_eq _ _ = False"

text \<open>Truthiness, and \<^verbatim>\<open>a || b\<close>.\<close>

fun truthy :: "jsval \<Rightarrow> bool" where
  "truthy (Num a) = (a \<noteq> 0)"
| "truthy _ = False"

definition js_or :: "jsval \<Rightarrow> jsval \<Rightarrow> jsval" where
  "js_or a b = (if truthy a then a else b)"

section \<open>The Plane component\<close>

text \<open>
  An element of a \<^verbatim>\<open>Float32Array\<close>: a finite single-precision number, \<^verbatim>\<open>NaN\<close> or an
  infinity, which a store of a double too large for single precision leaves.
\<close>

datatype float32 = Float32 real | Float32_NaN | Float32_Infinity | Float32_NegInfinity

text \<open>
  A \<^verbatim>\<open>Float32Array\<close> is a list of such elements of fixed length; \<^verbatim>\<open>Uint16Array\<close> and
  \<^verbatim>\<open>Uint32Array\<close> are lists of naturals. A store beyond the end of a typed array is
  ignored, which is what list update does.
\<close>

datatype index_array = Uint16Array | Uint32Array

datatype js_error = RangeError

text \<open>
  The fields of \<^verbatim>\<open>this\<close>. \<open>this_lod\<close> is \<^verbatim>\<open>this._lod\<close>, and so on;
  \<open>this_dirty\<close> is \<^verbatim>\<open>this.__dirty\<close>, read as false while it is still unset. The four
  buffers are the geometry properties that \<^verbatim>\<open>_buildGrid\<close> assigns, with the element type
  of the index buffer beside them.

  Three fields record effects on collaborators outside the file: \<open>pending\<close> counts the
  callbacks this component has registered with \<^verbatim>\<open>this.scene.once("tick2", ...)\<close> that
  have not run yet, \<open>fired\<close> lists the calls of \<^verbatim>\<open>this.fire(name, value)\<close>, and
  \<open>warnings\<close> the calls of \<^verbatim>\<open>this.warn(message)\<close>. \<open>rebuilds\<close> is a ghost counter of
  the completed runs of \<^verbatim>\<open>_buildGrid\<close>.
\<close>

record plane =
  this_lod :: jsval
  this_xSize :: jsval
  this_ySize :: jsval
  this_xSegments :: jsval
  this_ySegments :: jsval
  this_dirty :: bool
  positions :: "float32 list"
  normals :: "float32 list"
  uv :: "float32 list"
  indices :: "nat list"
  indices_type :: index_array
  pending :: nat
  fired :: "(string \<times> jsval) list"
  warnings :: "string list"
  rebuilds :: nat

text \<open>The component before \<^verbatim>\<open>_init\<close> has assigned anything.\<close>

definition new_plane :: plane where
  "new_plane = \<lparr>this_lod = Undefined, this_xSize = Undefined, this_ySize = Undefined,
     this_xSegments = Undefined, this_ySegments = Undefined, this_dirty = False,
     positions = [], normals = [], uv = [], indices = [], indices_type = Uint16Array,
     pending = 0, fired = [], warnings = [], rebuilds = 0\<rparr>"

definition warn :: "string \<Rightarrow> plane \<Rightarrow> plane" where
  "warn msg this = this\<lparr>warnings := warnings this @ [msg]\<rparr>"

definition fire :: "string \<Rightarrow> jsval \<Rightarrow> plane \<Rightarrow> plane" where
  "fire name v this = this\<lparr>fired := fired this @ [(name, v)]\<rparr>"

text \<open>
  Modelled from the spec: \<^verbatim>\<open>scene.once\<close> is not in the file. It registers one callback
  that the scene runs once, on its next \<^verbatim>\<open>tick2\<close> event. Every callback this component
  registers is the same closure, so counting them is enough.
\<close>

definition scene_once_tick2 :: "plane \<Rightarrow> plane" where
  "scene_once_tick2 this = this\<lparr>pending := pending this + 1\<rparr>"

text \<open>\<^verbatim>\<open>_gridDirty\<close>.\<close>

definition gridDirty :: "plane \<Rightarrow> plane" where
  "gridDirty this =
     (if \<not> this_dirty this then scene_once_tick2 (this\<lparr>this_dirty := True\<rparr>) else this)"

subsection \<open>The property setters\<close>

text \<open>
  Each setter follows the source line by line: default, guard, sanitise, store, mark
  dirty, fire. In the sign flip \<^verbatim>\<open>value * -1\<close> the product with \<^verbatim>\<open>-1\<close> only changes the
  sign, so no rounding applies; the branch is reached with a negative number only.
\<close>

definition set_lod :: "jsval \<Rightarrow> plane \<Rightarrow> plane" where
  "set_lod v this =
     (let value = (if v \<noteq> Undefined then v else Num 1) in
      if strict_eq (this_lod this) value then this
      else
        let clamp = js_lt value (Num 0) \<or> js_gt value (Num 1);
            this1 = (if clamp then warn ''clamping lod to [0..1]'' this else this);
            value1 = (if clamp then (if js_lt value (Num 0) then Num 0 else Num 1) else value);
            this2 = this1\<lparr>this_lod := value1\<rparr>;
            this3 = gridDirty this2
        in fire ''lod'' (this_lod this3) this3)"

definition flip_negative :: "jsval \<Rightarrow> jsval" where
  "flip_negative value = (case value of Num x \<Rightarrow> Num (x * - 1) | _ \<Rightarrow> NaN)"

definition set_xSize :: "jsval \<Rightarrow> plane \<Rightarrow> plane" where
  "set_xSize v this =
     (let value = js_or v (Num 1) in
      if strict_eq (this_xSize this) value then this
      else
        let neg = js_lt value (Num 0);
            this1 = (if neg then warn ''negative xSize not allowed - will invert'' this else this);
            value1 = (if neg then flip_negative value else value);
            this2 = this1\<lparr>this_xSize := value1\<rparr>;
            this3 = gridDirty this2
        in fire ''xSize'' (this_xSize this3) this3)"

definition set_ySize :: "jsval \<Rightarrow> plane \<Rightarrow> plane" where
  "set_ySize v this =
     (let value = js_or v (Num (1 / 4)) in
      if strict_eq (this_ySize this) value then this
      else
        let neg = js_lt value (Num 0);
            this1 = (if neg then warn ''negative ySize not allowed - will invert'' this else this);
            value1 = (if neg then flip_negative value else value);
            this2 = this1\<lparr>this_ySize := value1\<rparr>;
            this3 = gridDirty this2
        in fire ''ySize'' (this_ySize this3) this3)"

definition set_xSegments :: "jsval \<Rightarrow> plane \<Rightarrow> plane" where
  "set_xSegments v this =
     (let value = js_or v (Num 4) in
      if strict_eq (this_xSegments this) value then this
      else
        let neg = js_lt value (Num 0);
            this1 = (if neg then warn ''negative xSegments not allowed - will invert'' this else this);
            value1 = (if neg then flip_negative value else value);
            this2 = this1\<lparr>this_xSegments := value1\<rparr>;
            this3 = gridDirty this2
        in fire ''xSegments'' (this_xSegments this3) this3)"

definition set_ySegments :: "jsval \<Rightarrow> plane \<Rightarrow> plane" where
  "set_ySegments v this =
     (let value = js_or v (Num 4) in
      if strict_eq (this_ySegments this) value then this
      else
        let neg = js_lt value (Num 0);
            this1 = (if neg then warn ''negative ySegments not allowed - will invert'' this else this);
            value1 = (if neg then flip_negative value else value);
            this2 = this1\<lparr>this_ySegments := value1\<rparr>;
            this3 = gridDirty this2
        in fire ''ySegments'' (this_ySegments this3) this3)"

text \<open>A call of one of the five setters, and a sequence of such calls.\<close>

datatype call = SetLod jsval | SetXSize jsval | SetYSize jsval
  | SetXSegments jsval | SetYSegments jsval

fun apply_call :: "call \<Rightarrow> plane \<Rightarrow> plane" where
  "apply_call (SetLod v) this = set_lod v this"
| "apply_call (SetXSize v) this = set_xSize v this"
| "apply_call (SetYSize v) this = set_ySize v this"
| "apply_call (SetXSegments v) this = set_xSegments v this"
| "apply_call (SetYSegments v) this = set_ySegments v this"

fun apply_calls :: "call list \<Rightarrow> plane \<Rightarrow> plane" where
  "apply_calls [] this = this"
| "apply_calls (c # cs) this = apply_calls cs (apply_call c this)"

text \<open>
  \<^verbatim>\<open>_init\<close>, from the five configuration values it reads (\<^verbatim>\<open>this._super(cfg)\<close> and
  \<^verbatim>\<open>autoNormals\<close> play no part in the grid).
\<close>

record config =
  cfg_xSize :: jsval
  cfg_ySize :: jsval
  cfg_xSegments :: jsval
  cfg_ySegments :: jsval
  cfg_lod :: jsval

definition init :: "config \<Rightarrow> plane" where
  "init cfg =
     set_lod (cfg_lod cfg)
       (set_ySegments (cfg_ySegments cfg)
         (set_xSegments (cfg_xSegments cfg)
           (set_ySize (cfg_ySize cfg)
             (set_xSize (cfg_xSize cfg) new_plane))))"

subsection \<open>The rebuild\<close>

text \<open>
  The local variables of \<^verbatim>\<open>_buildGrid\<close> that the loops read. The grid counts are
  integers once \<^verbatim>\<open>Math.floor(...) || 1\<close> has been applied; integer arithmetic on them is
  exact (doubles represent integers exactly up to \<open>2^53\<close>).
\<close>

record grid_locals =
  gridX :: int
  gridY :: int
  gridX1 :: int
  gridY1 :: int
  segmentWidth :: jsval
  segmentHeight :: jsval
  halfWidth :: jsval
  halfHeight :: jsval

text \<open>\<^verbatim>\<open>Math.floor(v) || 1\<close>, which is always a non-zero integer.\<close>

definition grid_count :: "jsval \<Rightarrow> int" where
  "grid_count v = (case js_or (js_floor v) (Num 1) of Num x \<Rightarrow> \<lfloor>x\<rfloor> | _ \<Rightarrow> 1)"

text \<open>Lines 67 to 91 of \<^verbatim>\<open>_buildGrid\<close>, the repeated test on \<^verbatim>\<open>ySegments\<close> included.\<close>

definition grid_of :: "fparith \<Rightarrow> plane \<Rightarrow> grid_locals" where
  "grid_of fp this =
     (let width = this_xSize this;
          height = this_ySize this;
          xSegments = js_floor (js_mul fp (this_lod this) (this_xSegments this));
          ySegments = js_floor (js_mul fp (this_lod this) (this_ySegments this));
          ySegments = (if js_lt ySegments (Num 4) then Num 4 else ySegments);
          ySegments = (if js_lt ySegments (Num 4) then Num 4 else ySegments);
          halfWidth = js_div fp width (Num 2);
          halfHeight = js_div fp height (Num 2);
          gridX = grid_count xSegments;
          gridY = grid_count ySegments;
          gridX1 = gridX + 1;
          gridY1 = gridY + 1;
          segmentWidth = js_div fp width (Num (of_int gridX));
          segmentHeight = js_div fp height (Num (of_int gridY))
      in \<lparr>gridX = gridX, gridY = gridY, gridX1 = gridX1, gridY1 = gridY1,
          segmentWidth = segmentWidth, segmentHeight = segmentHeight,
          halfWidth = halfWidth, halfHeight = halfHeight\<rparr>)"

text \<open>
  A store into a \<^verbatim>\<open>Float32Array\<close> converts the value to single precision. A double of
  magnitude \<open>2^128 - 2^103\<close> or more, half a step above the largest single-precision
  number, becomes an infinity.
\<close>

fun to_float32 :: "fparith \<Rightarrow> jsval \<Rightarrow> float32" where
  "to_float32 fp (Num a) =
     (if 2 ^ 128 - 2 ^ 103 \<le> a then Float32_Infinity
      else if a \<le> - (2 ^ 128 - 2 ^ 103) then Float32_NegInfinity
      else Float32 (round32 fp a))"
| "to_float32 fp _ = Float32_NaN"

text \<open>A store into an unsigned integer array wraps modulo the element width.\<close>

fun to_uint :: "index_array \<Rightarrow> int \<Rightarrow> nat" where
  "to_uint Uint16Array n = nat (n mod 65536)"
| "to_uint Uint32Array n = nat (n mod 4294967296)"

text \<open>The variables the vertex loops update.\<close>

record vertex_loop =
  v_positions :: "float32 list"
  v_normals :: "float32 list"
  v_uvs :: "float32 list"
  v_offset :: nat
  v_offset2 :: nat

text \<open>The body of the inner vertex loop, lines 106 to 117.\<close>

definition emit_vertex :: "fparith \<Rightarrow> grid_locals \<Rightarrow> jsval \<Rightarrow> nat \<Rightarrow> nat \<Rightarrow> vertex_loop \<Rightarrow> vertex_loop" where
  "emit_vertex fp g y iy ix st =
     (let x = js_sub fp (js_mul fp (Num (of_nat ix)) (segmentWidth g)) (halfWidth g);
          offset = v_offset st;
          offset2 = v_offset2 st;
          ps = (v_positions st)[offset := to_float32 fp x];
          ps = ps[offset + 1 := to_float32 fp (js_neg y)];
          ns = (v_normals st)[offset + 2 := to_float32 fp (Num (- 1))];
          us = (v_uvs st)[offset2 :=
                 to_float32 fp (js_div fp (Num (of_int (gridX g - int ix))) (Num (of_int (gridX g))))];
          us = us[offset2 + 1 :=
                 to_float32 fp (js_sub fp (Num 1)
                   (js_div fp (Num (of_int (gridY g - int iy))) (Num (of_int (gridY g)))))]
      in \<lparr>v_positions = ps, v_normals = ns, v_uvs = us,
          v_offset = offset + 3, v_offset2 = offset2 + 2\<rparr>)"

text \<open>\<^verbatim>\<open>for (ix = 0; ix < gridX1; ix++)\<close>, from the current \<open>ix\<close> on.\<close>

function vertex_cols :: "fparith \<Rightarrow> grid_locals \<Rightarrow> jsval \<Rightarrow> nat \<Rightarrow> nat \<Rightarrow> vertex_loop \<Rightarrow> vertex_loop" where
  "vertex_cols fp g y iy ix st =
     (if int ix < gridX1 g then vertex_cols fp g y iy (ix + 1) (emit_vertex fp g y iy ix st)
      else st)"
  by pat_completeness auto
termination
  by (relation "measure (\<lambda>(fp, g, y, iy, ix, st). nat (gridX1 g - int ix))") auto

text \<open>\<^verbatim>\<open>for (iy = 0; iy < gridY1; iy++)\<close>, from the current \<open>iy\<close> on.\<close>

function vertex_rows :: "fparith \<Rightarrow> grid_locals \<Rightarrow> nat \<Rightarrow> vertex_loop \<Rightarrow> vertex_loop" where
  "vertex_rows fp g iy st =
     (if int iy < gridY1 g then
        (let y = js_sub fp (js_mul fp (Num (of_nat iy)) (segmentHeight g)) (halfHeight g)
         in vertex_rows fp g (iy + 1) (vertex_cols fp g y iy 0 st))
      else st)"
  by pat_completeness auto
termination
  by (relation "measure (\<lambda>(fp, g, iy, st). nat (gridY1 g - int iy))") auto

text \<open>The variables the index loops update.\<close>

record index_loop =
  i_indices :: "nat list"
  i_offset :: nat

text \<open>The body of the inner index loop, lines 129 to 142.\<close>

definition emit_cell :: "grid_locals \<Rightarrow> index_array \<Rightarrow> nat \<Rightarrow> nat \<Rightarrow> index_loop \<Rightarrow> index_loop" where
  "emit_cell g ty iy ix st =
     (let a = int ix + gridX1 g * int iy;
          b = int ix + gridX1 g * (int iy + 1);
          c = (int ix + 1) + gridX1 g * (int iy + 1);
          d = (int ix + 1) + gridX1 g * int iy;
          offset = i_offset st;
          is = (i_indices st)[offset := to_uint ty d];
          is = is[offset + 1 := to_uint ty b];
          is = is[offset + 2 := to_uint ty a];
          is = is[offset + 3 := to_uint ty d];
          is = is[offset + 4 := to_uint ty c];
          is = is[offset + 5 := to_uint ty b]
      in \<lparr>i_indices = is, i_offset = offset + 6\<rparr>)"

function index_cols :: "grid_locals \<Rightarrow> index_array \<Rightarrow> nat \<Rightarrow> nat \<Rightarrow> index_loop \<Rightarrow> index_loop" where
  "index_cols g ty iy ix st =
     (if int ix < gridX g then index_cols g ty iy (ix + 1) (emit_cell g ty iy ix st) else st)"
  by pat_completeness auto
termination
  by (relation "measure (\<lambda>(g, ty, iy, ix, st). nat (gridX g - int ix))") auto

function index_rows :: "grid_locals \<Rightarrow> index_array \<Rightarrow> nat \<Rightarrow> index_loop \<Rightarrow> index_loop" where
  "index_rows g ty iy st =
     (if int iy < gridY g then index_rows g ty (iy + 1) (index_cols g ty iy 0 st) else st)"
  by pat_completeness auto
termination
  by (relation "measure (\<lambda>(g, ty, iy, st). nat (gridY g - int iy))") auto

text \<open>
  The three vertex buffers as \<^verbatim>\<open>new Float32Array(n)\<close> leaves them, filled with zeros,
  and both offsets at zero (lines 93 to 98); the index buffer likewise (lines 121 and 123).
\<close>

definition new_vertex_loop :: "grid_locals \<Rightarrow> vertex_loop" where
  "new_vertex_loop g =
     \<lparr>v_positions = replicate (nat (gridX1 g * gridY1 g * 3)) (Float32 0),
      v_normals = replicate (nat (gridX1 g * gridY1 g * 3)) (Float32 0),
      v_uvs = replicate (nat (gridX1 g * gridY1 g * 2)) (Float32 0),
      v_offset = 0, v_offset2 = 0\<rparr>"

definition new_index_loop :: "grid_locals \<Rightarrow> index_loop" where
  "new_index_loop g = \<lparr>i_indices = replicate (nat (gridX g * gridY g * 6)) 0, i_offset = 0\<rparr>"

text \<open>
  The constructor of a typed array throws a \<^verbatim>\<open>RangeError\<close> when the length is negative
  or above \<open>2^53 - 1\<close>, the largest index of the language. The counts of the model are
  exact integers, those of the source doubles: they agree below \<open>2^53\<close>, and a count
  that is larger gives a length above the limit in both, rounding being monotone. An
  engine also refuses a shorter array when memory runs out; the statements about a
  completed rebuild bound the grid instead.
\<close>

definition valid_length :: "int \<Rightarrow> bool" where
  "valid_length n = (0 \<le> n \<and> n \<le> 9007199254740991)"

text \<open>
  \<^verbatim>\<open>_buildGrid\<close>. An exception of a constructor leaves the function before anything is
  assigned to \<^verbatim>\<open>this\<close>.
\<close>

definition buildGrid :: "fparith \<Rightarrow> plane \<Rightarrow> js_error + plane" where
  "buildGrid fp this =
     (let g = grid_of fp this in
      if \<not> valid_length (gridX1 g * gridY1 g * 3) then Inl RangeError
      else if \<not> valid_length (gridX1 g * gridY1 g * 3) then Inl RangeError
      else if \<not> valid_length (gridX1 g * gridY1 g * 2) then Inl RangeError
      else
        let vs = vertex_rows fp g 0 (new_vertex_loop g);
            ty = (if real (length (v_positions vs)) / 3 > 65535 then Uint32Array else Uint16Array)
        in
          if \<not> valid_length (gridX g * gridY g * 6) then Inl RangeError
          else
            let is = index_rows g ty 0 (new_index_loop g)
            in Inr (this\<lparr>positions := v_positions vs, normals := v_normals vs,
                          uv := v_uvs vs, indices := i_indices is, indices_type := ty,
                          rebuilds := rebuilds this + 1\<rparr>))"

subsection \<open>The deferred rebuild\<close>

text \<open>
  The callback that \<^verbatim>\<open>_gridDirty\<close> registers: \<^verbatim>\<open>self._buildGrid()\<close>, then
  \<^verbatim>\<open>self.__dirty = false\<close>. An exception of the rebuild leaves the callback before the
  assignment.
\<close>

definition tick2_callback :: "fparith \<Rightarrow> plane \<Rightarrow> js_error + plane" where
  "tick2_callback fp this =
     (case buildGrid fp this of
        Inl e \<Rightarrow> Inl e
      | Inr this' \<Rightarrow> Inr (this'\<lparr>this_dirty := False\<rparr>))"

text \<open>
  The same callback when other code of the single thread runs while \<^verbatim>\<open>_buildGrid\<close> is
  executing, that is after it has read the stored parameters and before it returns (a
  listener called from an assignment of a buffer, say). \<open>during\<close> is that code; it
  touches no buffer, so running it after the buffers are assigned gives the same state.
\<close>

definition tick2_callback_during :: "fparith \<Rightarrow> (plane \<Rightarrow> plane) \<Rightarrow> plane \<Rightarrow> js_error + plane" where
  "tick2_callback_during fp during this =
     (case buildGrid fp this of
        Inl e \<Rightarrow> Inl e
      | Inr this' \<Rightarrow> Inr ((during this')\<lparr>this_dirty := False\<rparr>))"

text \<open>
  Modelled from the spec: the scene's \<^verbatim>\<open>tick2\<close> event is not in the file. It runs every
  callback registered with \<^verbatim>\<open>once\<close> a single time and forgets it; an exception of a
  callback ends the dispatch.
\<close>

fun run_callbacks :: "fparith \<Rightarrow> nat \<Rightarrow> plane \<Rightarrow> js_error + plane" where
  "run_callbacks fp 0 this = Inr this"
| "run_callbacks fp (Suc n) this =
     (case tick2_callback fp this of
        Inl e \<Rightarrow> Inl e
      | Inr this' \<Rightarrow> run_callbacks fp n this')"

definition tick2 :: "fparith \<Rightarrow> plane \<Rightarrow> js_error + plane" where
  "tick2 fp this = run_callbacks fp (pending this) (this\<lparr>pending := 0\<rparr>)"

section \<open>Notions used in the statements\<close>

text \<open>
  The stored parameters after sanitisation, as the data model of the specification has
  them: a level of detail in \<open>[0, 1]\<close>, positive sizes and positive segment counts.
\<close>

fun unit_interval :: "jsval \<Rightarrow> bool" where
  "unit_interval (Num l) = (0 \<le> l \<and> l \<le> 1)"
| "unit_interval _ = False"

fun positive :: "jsval \<Rightarrow> bool" where
  "positive (Num x) = (0 < x)"
| "positive _ = False"

definition sanitized :: "plane \<Rightarrow> bool" where
  "sanitized this =
     (unit_interval (this_lod this) \<and> positive (this_xSize this) \<and>
      positive (this_ySize this) \<and> positive (this_xSegments this) \<and>
      positive (this_ySegments this))"

text \<open>
  What holds of \<^verbatim>\<open>this._lod\<close> at every moment, before \<^verbatim>\<open>_init\<close> too: it is no number
  outside \<open>[0, 1]\<close>.
\<close>

definition lod_in_range :: "jsval \<Rightarrow> bool" where
  "lod_in_range v = (\<not> js_lt v (Num 0) \<and> \<not> js_gt v (Num 1))"

text \<open>
  What the statements need of the rounding of doubles: zero is not rounded and rounding is
  monotone, as round-to-nearest is.
\<close>

definition sound_rounding :: "fparith \<Rightarrow> bool" where
  "sound_rounding fp =
     (round64 fp 0 = 0 \<and> (\<forall>x y. x \<le> y \<longrightarrow> round64 fp x \<le> round64 fp y))"

text \<open>
  What the setters keep true of the stored level of detail and of the stored horizontal
  segment count, from the unset component on: neither is a negative number. It is what
  the rebuild needs in order not to throw.
\<close>

definition never_negative :: "plane \<Rightarrow> bool" where
  "never_negative this =
     (\<not> js_lt (this_lod this) (Num 0) \<and> \<not> js_lt (this_xSegments this) (Num 0))"

text \<open>
  A setter call that left its guard behind has marked the grid dirty, with one more
  callback registered unless the grid was dirty already, and has fired one event.
\<close>

definition notified :: "string \<Rightarrow> jsval \<Rightarrow> plane \<Rightarrow> plane \<Rightarrow> bool" where
  "notified name v this this' =
     (this_dirty this' \<and>
      pending this' = (if this_dirty this then pending this else pending this + 1) \<and>
      fired this' = fired this @ [(name, v)])"

text \<open>Both roundings leave the numbers of a set unchanged.\<close>

definition exact_on :: "fparith \<Rightarrow> real set \<Rightarrow> bool" where
  "exact_on fp S = (\<forall>x\<in>S. round64 fp x = x \<and> round32 fp x = x)"

text \<open>The three coordinates of vertex \<open>v\<close> in a position buffer.\<close>

definition vertex_position :: "float32 list \<Rightarrow> nat \<Rightarrow> float32 \<times> float32 \<times> float32" where
  "vertex_position ps v = (ps ! (3 * v), ps ! (3 * v + 1), ps ! (3 * v + 2))"

text \<open>The two triangles of the cell at column \<open>ix\<close> and row \<open>iy\<close>.\<close>

definition cell_triangles :: "grid_locals \<Rightarrow> nat \<Rightarrow> nat \<Rightarrow> int list" where
  "cell_triangles g iy ix =
     (let a = int ix + gridX1 g * int iy;
          b = int ix + gridX1 g * (int iy + 1);
          c = (int ix + 1) + gridX1 g * (int iy + 1);
          d = (int ix + 1) + gridX1 g * int iy
      in [d, b, a, d, c, b])"

text \<open>
  The component built from \<^verbatim>\<open>{xSize: 2, ySize: 2, xSegments: 1, ySegments: 4}\<close>, with
  \<^verbatim>\<open>lod\<close> left out.
\<close>

definition plane_2x2 :: plane where
  "plane_2x2 = init \<lparr>cfg_xSize = Num 2, cfg_ySize = Num 2, cfg_xSegments = Num 1,
     cfg_ySegments = Num 4, cfg_lod = Undefined\<rparr>"

section \<open>The setters\<close>

lemmas setter_defs = js_or_def flip_negative_def gridDirty_def scene_once_tick2_def
  warn_def fire_def Let_def

lemma unit_intervalD: "unit_interval v \<Longrightarrow> \<exists>l. v = Num l \<and> 0 \<le> l \<and> l \<le> 1"
  by (cases v) simp_all

lemma positiveD: "positive v \<Longrightarrow> \<exists>x. v = Num x \<and> 0 < x"
  by (cases v) simp_all

lemma set_lod_same: "this_lod this = Num l \<Longrightarrow> set_lod (Num l) this = this"
  by (simp add: set_lod_def)

lemma set_xSize_same: "this_xSize this = Num x \<Longrightarrow> x \<noteq> 0 \<Longrightarrow> set_xSize (Num x) this = this"
  by (simp add: set_xSize_def js_or_def)

lemma set_ySize_same: "this_ySize this = Num x \<Longrightarrow> x \<noteq> 0 \<Longrightarrow> set_ySize (Num x) this = this"
  by (simp add: set_ySize_def js_or_def)

lemma set_xSegments_same:
  "this_xSegments this = Num x \<Longrightarrow> x \<noteq> 0 \<Longrightarrow> set_xSegments (Num x) this = this"
  by (simp add: set_xSegments_def js_or_def)

lemma set_ySegments_same:
  "this_ySegments this = Num x \<Longrightarrow> x \<noteq> 0 \<Longrightarrow> set_ySegments (Num x) this = this"
  by (simp add: set_ySegments_def js_or_def)

section \<open>The loops of the rebuild\<close>

declare vertex_cols.simps [simp del] vertex_rows.simps [simp del]
  index_cols.simps [simp del] index_rows.simps [simp del]

lemma vertex_cols_step:
  "int ix < gridX1 g \<Longrightarrow>
   vertex_cols fp g y iy ix st = vertex_cols fp g y iy (ix + 1) (emit_vertex fp g y iy ix st)"
  by (subst vertex_cols.simps) simp

lemma vertex_cols_stop: "\<not> int ix < gridX1 g \<Longrightarrow> vertex_cols fp g y iy ix st = st"
  by (subst vertex_cols.simps) simp

lemma vertex_rows_step:
  "int iy < gridY1 g \<Longrightarrow>
   vertex_rows fp g iy st =
     vertex_rows fp g (iy + 1)
       (vertex_cols fp g (js_sub fp (js_mul fp (Num (of_nat iy)) (segmentHeight g)) (halfHeight g)) iy 0 st)"
  by (subst vertex_rows.simps) (simp add: Let_def)

lemma vertex_rows_stop: "\<not> int iy < gridY1 g \<Longrightarrow> vertex_rows fp g iy st = st"
  by (subst vertex_rows.simps) simp

lemma emit_vertex_sel [simp]:
  "v_offset (emit_vertex fp g y iy ix st) = v_offset st + 3"
  "v_offset2 (emit_vertex fp g y iy ix st) = v_offset2 st + 2"
  "length (v_positions (emit_vertex fp g y iy ix st)) = length (v_positions st)"
  "length (v_normals (emit_vertex fp g y iy ix st)) = length (v_normals st)"
  "length (v_uvs (emit_vertex fp g y iy ix st)) = length (v_uvs st)"
  by (simp_all add: emit_vertex_def Let_def)

lemma emit_vertex_at:
  assumes "v_offset st + 1 < length (v_positions st)"
  shows "v_positions (emit_vertex fp g y iy ix st) ! v_offset st =
           to_float32 fp (js_sub fp (js_mul fp (Num (of_nat ix)) (segmentWidth g)) (halfWidth g))"
    and "v_positions (emit_vertex fp g y iy ix st) ! (v_offset st + 1) = to_float32 fp (js_neg y)"
  using assms by (simp_all add: emit_vertex_def Let_def nth_list_update)

lemma emit_vertex_other:
  "k \<noteq> v_offset st \<Longrightarrow> k \<noteq> v_offset st + 1 \<Longrightarrow>
   v_positions (emit_vertex fp g y iy ix st) ! k = v_positions st ! k"
  by (simp add: emit_vertex_def Let_def)

lemma vertex_cols_sel:
  "v_offset (vertex_cols fp g y iy ix st) = v_offset st + 3 * nat (gridX1 g - int ix) \<and>
   length (v_positions (vertex_cols fp g y iy ix st)) = length (v_positions st) \<and>
   length (v_normals (vertex_cols fp g y iy ix st)) = length (v_normals st) \<and>
   length (v_uvs (vertex_cols fp g y iy ix st)) = length (v_uvs st)"
proof (induction fp g y iy ix st rule: vertex_cols.induct)
  case (1 fp g y iy ix st)
  show ?case
  proof (cases "int ix < gridX1 g")
    case True
    have "nat (gridX1 g - int ix) = Suc (nat (gridX1 g - int (ix + 1)))"
      using True by simp
    with 1 [OF True] show ?thesis
      by (simp add: vertex_cols_step [OF True])
  next
    case False
    then show ?thesis by (simp add: vertex_cols_stop)
  qed
qed

lemma vertex_cols_below:
  "k < v_offset st \<Longrightarrow> v_positions (vertex_cols fp g y iy ix st) ! k = v_positions st ! k"
proof (induction fp g y iy ix st rule: vertex_cols.induct)
  case (1 fp g y iy ix st)
  show ?case
  proof (cases "int ix < gridX1 g")
    case True
    from 1 show ?thesis
      by (simp add: vertex_cols_step [OF True] True emit_vertex_other)
  next
    case False
    then show ?thesis by (simp add: vertex_cols_stop)
  qed
qed

lemma vertex_cols_written:
  "int (ix + j) < gridX1 g \<Longrightarrow> v_offset st + 3 * j + 1 < length (v_positions st) \<Longrightarrow>
   v_positions (vertex_cols fp g y iy ix st) ! (v_offset st + 3 * j) =
     to_float32 fp (js_sub fp (js_mul fp (Num (of_nat (ix + j))) (segmentWidth g)) (halfWidth g)) \<and>
   v_positions (vertex_cols fp g y iy ix st) ! (v_offset st + 3 * j + 1) = to_float32 fp (js_neg y)"
proof (induction fp g y iy ix st arbitrary: j rule: vertex_cols.induct)
  case (1 fp g y iy ix st)
  from "1.prems" have lt: "int ix < gridX1 g" by simp
  show ?case
  proof (cases j)
    case 0
    with "1.prems" emit_vertex_at [of st fp g y iy ix] show ?thesis
      by (simp add: vertex_cols_step [OF lt] vertex_cols_below)
  next
    case (Suc j')
    with "1.prems" have "int (ix + 1 + j') < gridX1 g"
      and "v_offset (emit_vertex fp g y iy ix st) + 3 * j' + 1
             < length (v_positions (emit_vertex fp g y iy ix st))"
      by simp_all
    from "1.IH" [OF lt this] show ?thesis
      by (simp add: vertex_cols_step [OF lt] Suc add.assoc)
  qed
qed

lemma vertex_cols_z:
  "v_positions (vertex_cols fp g y iy ix st) ! (v_offset st + 3 * j + 2) =
   v_positions st ! (v_offset st + 3 * j + 2)"
proof (induction fp g y iy ix st arbitrary: j rule: vertex_cols.induct)
  case (1 fp g y iy ix st)
  show ?case
  proof (cases "int ix < gridX1 g")
    case lt: True
    show ?thesis
    proof (cases j)
      case 0
      then show ?thesis
        by (simp add: vertex_cols_step [OF lt] vertex_cols_below emit_vertex_other)
    next
      case (Suc j')
      from "1.IH" [OF lt, of j'] show ?thesis
        by (simp add: vertex_cols_step [OF lt] Suc add.assoc emit_vertex_other)
    qed
  next
    case False
    then show ?thesis by (simp add: vertex_cols_stop)
  qed
qed

lemma vertex_rows_sel:
  "length (v_positions (vertex_rows fp g iy st)) = length (v_positions st) \<and>
   length (v_normals (vertex_rows fp g iy st)) = length (v_normals st) \<and>
   length (v_uvs (vertex_rows fp g iy st)) = length (v_uvs st)"
proof (induction fp g iy st rule: vertex_rows.induct)
  case (1 fp g iy st)
  show ?case
  proof (cases "int iy < gridY1 g")
    case True
    from 1 [OF True refl] show ?thesis
      by (simp add: vertex_rows_step [OF True] vertex_cols_sel)
  next
    case False
    then show ?thesis by (simp add: vertex_rows_stop)
  qed
qed

lemma vertex_rows_below:
  "k < v_offset st \<Longrightarrow> v_positions (vertex_rows fp g iy st) ! k = v_positions st ! k"
proof (induction fp g iy st rule: vertex_rows.induct)
  case (1 fp g iy st)
  show ?case
  proof (cases "int iy < gridY1 g")
    case True
    from 1 (1) [OF True refl] 1 (2) show ?thesis
      by (simp add: vertex_rows_step [OF True] vertex_cols_sel vertex_cols_below)
  next
    case False
    then show ?thesis by (simp add: vertex_rows_stop)
  qed
qed

lemma vertex_rows_written:
  "int (iy + r) < gridY1 g \<Longrightarrow> int j < gridX1 g \<Longrightarrow>
   v_offset st + 3 * (r * nat (gridX1 g) + j) + 1 < length (v_positions st) \<Longrightarrow>
   v_positions (vertex_rows fp g iy st) ! (v_offset st + 3 * (r * nat (gridX1 g) + j)) =
     to_float32 fp (js_sub fp (js_mul fp (Num (of_nat j)) (segmentWidth g)) (halfWidth g)) \<and>
   v_positions (vertex_rows fp g iy st) ! (v_offset st + 3 * (r * nat (gridX1 g) + j) + 1) =
     to_float32 fp (js_neg
       (js_sub fp (js_mul fp (Num (of_nat (iy + r))) (segmentHeight g)) (halfHeight g)))"
proof (induction fp g iy st arbitrary: r rule: vertex_rows.induct)
  case (1 fp g iy st)
  define y where "y = js_sub fp (js_mul fp (Num (of_nat iy)) (segmentHeight g)) (halfHeight g)"
  define st1 where "st1 = vertex_cols fp g y iy 0 st"
  from "1.prems" have lt: "int iy < gridY1 g" by simp
  have step: "vertex_rows fp g iy st = vertex_rows fp g (iy + 1) st1"
    by (simp add: vertex_rows_step [OF lt] st1_def y_def)
  have off1: "v_offset st1 = v_offset st + 3 * nat (gridX1 g)"
    and len1: "length (v_positions st1) = length (v_positions st)"
    by (simp_all add: st1_def vertex_cols_sel)
  show ?case
  proof (cases r)
    case 0
    from "1.prems" have j: "j < nat (gridX1 g)" by simp
    have "v_positions (vertex_rows fp g (iy + 1) st1) ! (v_offset st + 3 * j) =
            v_positions st1 ! (v_offset st + 3 * j)"
      and "v_positions (vertex_rows fp g (iy + 1) st1) ! (v_offset st + 3 * j + 1) =
            v_positions st1 ! (v_offset st + 3 * j + 1)"
      using j by (simp_all add: vertex_rows_below off1)
    moreover from "1.prems" 0 vertex_cols_written [of 0 j g st fp y iy]
    have "v_positions st1 ! (v_offset st + 3 * j) =
            to_float32 fp (js_sub fp (js_mul fp (Num (of_nat j)) (segmentWidth g)) (halfWidth g))"
      and "v_positions st1 ! (v_offset st + 3 * j + 1) = to_float32 fp (js_neg y)"
      by (simp_all add: st1_def)
    ultimately show ?thesis
      by (simp add: step 0 y_def)
  next
    case (Suc r')
    from "1.prems" Suc have a: "int (iy + 1 + r') < gridY1 g" by simp
    from "1.prems" Suc
    have b: "v_offset st1 + 3 * (r' * nat (gridX1 g) + j) + 1 < length (v_positions st1)"
      by (simp add: off1 len1 algebra_simps)
    have idx: "v_offset st1 + 3 * (r' * nat (gridX1 g) + j) =
               v_offset st + 3 * (r * nat (gridX1 g) + j)"
      by (simp add: off1 Suc algebra_simps)
    from "1.IH" [OF lt y_def [symmetric, THEN sym] a "1.prems" (2)] b
    show ?thesis
      unfolding st1_def [symmetric] step idx using Suc by simp
  qed
qed

lemma vertex_rows_z:
  "v_positions (vertex_rows fp g iy st) ! (v_offset st + 3 * j + 2) =
   v_positions st ! (v_offset st + 3 * j + 2)"
proof (induction fp g iy st arbitrary: j rule: vertex_rows.induct)
  case (1 fp g iy st)
  show ?case
  proof (cases "int iy < gridY1 g")
    case lt: True
    define y where "y = js_sub fp (js_mul fp (Num (of_nat iy)) (segmentHeight g)) (halfHeight g)"
    define st1 where "st1 = vertex_cols fp g y iy 0 st"
    have step: "vertex_rows fp g iy st = vertex_rows fp g (iy + 1) st1"
      by (simp add: vertex_rows_step [OF lt] st1_def y_def)
    have off1: "v_offset st1 = v_offset st + 3 * nat (gridX1 g)"
      by (simp add: st1_def vertex_cols_sel)
    have cols: "v_positions st1 ! (v_offset st + 3 * j + 2) = v_positions st ! (v_offset st + 3 * j + 2)"
      unfolding st1_def by (rule vertex_cols_z)
    show ?thesis
    proof (cases "j < nat (gridX1 g)")
      case True
      then have "v_offset st + 3 * j + 2 < v_offset st1" by (simp add: off1)
      with cols show ?thesis by (simp add: step vertex_rows_below)
    next
      case False
      then obtain j' where j: "j = nat (gridX1 g) + j'"
        using le_Suc_ex [of "nat (gridX1 g)" j] by auto
      have idx: "v_offset st + 3 * j + 2 = v_offset st1 + 3 * j' + 2"
        by (simp add: off1 j)
      from "1.IH" [OF lt y_def [symmetric, THEN sym], of j'] cols
      show ?thesis
        unfolding st1_def [symmetric] step idx by simp
    qed
  next
    case False
    then show ?thesis by (simp add: vertex_rows_stop)
  qed
qed

lemma index_cols_step:
  "int ix < gridX g \<Longrightarrow>
   index_cols g ty iy ix st = index_cols g ty iy (ix + 1) (emit_cell g ty iy ix st)"
  by (subst index_cols.simps) simp

lemma index_cols_stop: "\<not> int ix < gridX g \<Longrightarrow> index_cols g ty iy ix st = st"
  by (subst index_cols.simps) simp

lemma index_rows_step:
  "int iy < gridY g \<Longrightarrow>
   index_rows g ty iy st = index_rows g ty (iy + 1) (index_cols g ty iy 0 st)"
  by (subst index_rows.simps) simp

lemma index_rows_stop: "\<not> int iy < gridY g \<Longrightarrow> index_rows g ty iy st = st"
  by (subst index_rows.simps) simp

lemma emit_cell_sel [simp]:
  "i_offset (emit_cell g ty iy ix st) = i_offset st + 6"
  "length (i_indices (emit_cell g ty iy ix st)) = length (i_indices st)"
  by (simp_all add: emit_cell_def Let_def)

lemma emit_cell_at:
  assumes "i_offset st + 5 < length (i_indices st)"
  shows "take 6 (drop (i_offset st) (i_indices (emit_cell g ty iy ix st))) =
           map (to_uint ty) (cell_triangles g iy ix)"
proof (rule nth_equalityI)
  show "length (take 6 (drop (i_offset st) (i_indices (emit_cell g ty iy ix st)))) =
        length (map (to_uint ty) (cell_triangles g iy ix))"
    using assms by (simp add: cell_triangles_def Let_def)
next
  fix t
  assume "t < length (take 6 (drop (i_offset st) (i_indices (emit_cell g ty iy ix st))))"
  then have "t < 6" by simp
  then consider "t = 0" | "t = 1" | "t = 2" | "t = 3" | "t = 4" | "t = 5" by linarith
  then show "take 6 (drop (i_offset st) (i_indices (emit_cell g ty iy ix st))) ! t =
        map (to_uint ty) (cell_triangles g iy ix) ! t"
    using assms
    by cases (simp_all add: emit_cell_def cell_triangles_def Let_def nth_list_update)
qed

lemma emit_cell_below:
  "k < i_offset st \<Longrightarrow> i_indices (emit_cell g ty iy ix st) ! k = i_indices st ! k"
  by (simp add: emit_cell_def Let_def)

lemma index_cols_sel:
  "i_offset (index_cols g ty iy ix st) = i_offset st + 6 * nat (gridX g - int ix) \<and>
   length (i_indices (index_cols g ty iy ix st)) = length (i_indices st)"
proof (induction g ty iy ix st rule: index_cols.induct)
  case (1 g ty iy ix st)
  show ?case
  proof (cases "int ix < gridX g")
    case True
    have "nat (gridX g - int ix) = Suc (nat (gridX g - int (ix + 1)))"
      using True by simp
    with 1 [OF True] show ?thesis
      by (simp add: index_cols_step [OF True])
  next
    case False
    then show ?thesis by (simp add: index_cols_stop)
  qed
qed

lemma index_cols_below:
  "k < i_offset st \<Longrightarrow> i_indices (index_cols g ty iy ix st) ! k = i_indices st ! k"
proof (induction g ty iy ix st rule: index_cols.induct)
  case (1 g ty iy ix st)
  show ?case
  proof (cases "int ix < gridX g")
    case True
    from 1 show ?thesis
      by (simp add: index_cols_step [OF True] True emit_cell_below)
  next
    case False
    then show ?thesis by (simp add: index_cols_stop)
  qed
qed

text \<open>Six consecutive entries that a later part of the loop leaves alone.\<close>

lemma take6_cong:
  assumes "\<And>k. k < n + 6 \<Longrightarrow> xs ! k = ys ! k" and "length xs = length ys"
  shows "take 6 (drop n xs) = take 6 (drop n ys)"
proof (rule nth_equalityI)
  show "length (take 6 (drop n xs)) = length (take 6 (drop n ys))"
    using assms(2) by simp
next
  fix t assume "t < length (take 6 (drop n xs))"
  then have "t < 6" "n + t < length xs" by auto
  with assms show "take 6 (drop n xs) ! t = take 6 (drop n ys) ! t"
    by simp
qed

lemma index_cols_written:
  "int (ix + j) < gridX g \<Longrightarrow> i_offset st + 6 * j + 5 < length (i_indices st) \<Longrightarrow>
   take 6 (drop (i_offset st + 6 * j) (i_indices (index_cols g ty iy ix st))) =
     map (to_uint ty) (cell_triangles g iy (ix + j))"
proof (induction g ty iy ix st arbitrary: j rule: index_cols.induct)
  case (1 g ty iy ix st)
  from "1.prems" have lt: "int ix < gridX g" by simp
  show ?case
  proof (cases j)
    case 0
    have "take 6 (drop (i_offset st) (i_indices (index_cols g ty iy (ix + 1) (emit_cell g ty iy ix st)))) =
          take 6 (drop (i_offset st) (i_indices (emit_cell g ty iy ix st)))"
      by (rule take6_cong) (simp_all add: index_cols_below index_cols_sel)
    with "1.prems" 0 emit_cell_at [of st g ty iy ix] show ?thesis
      by (simp add: index_cols_step [OF lt])
  next
    case (Suc j')
    with "1.prems" have "int (ix + 1 + j') < gridX g"
      and "i_offset (emit_cell g ty iy ix st) + 6 * j' + 5 < length (i_indices (emit_cell g ty iy ix st))"
      by simp_all
    from "1.IH" [OF lt this] show ?thesis
      by (simp add: index_cols_step [OF lt] Suc add.assoc)
  qed
qed

lemma index_rows_sel:
  "length (i_indices (index_rows g ty iy st)) = length (i_indices st)"
proof (induction g ty iy st rule: index_rows.induct)
  case (1 g ty iy st)
  show ?case
  proof (cases "int iy < gridY g")
    case True
    from 1 [OF True] show ?thesis
      by (simp add: index_rows_step [OF True] index_cols_sel)
  next
    case False
    then show ?thesis by (simp add: index_rows_stop)
  qed
qed

lemma index_rows_below:
  "k < i_offset st \<Longrightarrow> i_indices (index_rows g ty iy st) ! k = i_indices st ! k"
proof (induction g ty iy st rule: index_rows.induct)
  case (1 g ty iy st)
  show ?case
  proof (cases "int iy < gridY g")
    case True
    from 1 (1) [OF True] 1 (2) show ?thesis
      by (simp add: index_rows_step [OF True] index_cols_sel index_cols_below)
  next
    case False
    then show ?thesis by (simp add: index_rows_stop)
  qed
qed

lemma index_rows_written:
  "int (iy + r) < gridY g \<Longrightarrow> int j < gridX g \<Longrightarrow>
   i_offset st + 6 * (r * nat (gridX g) + j) + 5 < length (i_indices st) \<Longrightarrow>
   take 6 (drop (i_offset st + 6 * (r * nat (gridX g) + j)) (i_indices (index_rows g ty iy st))) =
     map (to_uint ty) (cell_triangles g (iy + r) j)"
proof (induction g ty iy st arbitrary: r rule: index_rows.induct)
  case (1 g ty iy st)
  define st1 where "st1 = index_cols g ty iy 0 st"
  from "1.prems" have lt: "int iy < gridY g" by simp
  have step: "index_rows g ty iy st = index_rows g ty (iy + 1) st1"
    by (simp add: index_rows_step [OF lt] st1_def)
  have off1: "i_offset st1 = i_offset st + 6 * nat (gridX g)"
    and len1: "length (i_indices st1) = length (i_indices st)"
    by (simp_all add: st1_def index_cols_sel)
  show ?case
  proof (cases r)
    case 0
    from "1.prems" have j: "j < nat (gridX g)" by simp
    have "take 6 (drop (i_offset st + 6 * j) (i_indices (index_rows g ty (iy + 1) st1))) =
          take 6 (drop (i_offset st + 6 * j) (i_indices st1))"
      using j by (intro take6_cong) (simp_all add: index_rows_below index_rows_sel off1)
    moreover from "1.prems" 0 index_cols_written [of 0 j g st ty iy]
    have "take 6 (drop (i_offset st + 6 * j) (i_indices st1)) =
            map (to_uint ty) (cell_triangles g iy j)"
      by (simp add: st1_def)
    ultimately show ?thesis
      by (simp add: step 0)
  next
    case (Suc r')
    from "1.prems" Suc have a: "int (iy + 1 + r') < gridY g" by simp
    from "1.prems" Suc
    have b: "i_offset st1 + 6 * (r' * nat (gridX g) + j) + 5 < length (i_indices st1)"
      by (simp add: off1 len1 algebra_simps)
    have idx: "i_offset st1 + 6 * (r' * nat (gridX g) + j) =
               i_offset st + 6 * (r * nat (gridX g) + j)"
      by (simp add: off1 Suc algebra_simps)
    from "1.IH" [OF lt a "1.prems" (2)] b
    show ?thesis
      unfolding st1_def [symmetric] step idx using Suc by simp
  qed
qed

section \<open>The grid dimensions and the result of the rebuild\<close>

lemma grid_of_sel:
  "gridX1 (grid_of fp this) = gridX (grid_of fp this) + 1"
  "gridY1 (grid_of fp this) = gridY (grid_of fp this) + 1"
  "halfWidth (grid_of fp this) = js_div fp (this_xSize this) (Num 2)"
  "halfHeight (grid_of fp this) = js_div fp (this_ySize this) (Num 2)"
  "segmentWidth (grid_of fp this) =
     js_div fp (this_xSize this) (Num (of_int (gridX (grid_of fp this))))"
  "segmentHeight (grid_of fp this) =
     js_div fp (this_ySize this) (Num (of_int (gridY (grid_of fp this))))"
  by (simp_all add: grid_of_def Let_def)

lemma grid_count_Num: "grid_count (Num (of_int k)) = (if k = 0 then 1 else k)"
  by (simp add: grid_count_def js_or_def)

lemma grid_count_NaN: "grid_count NaN = 1"
  by (simp add: grid_count_def js_or_def)

lemma gridX_eq:
  assumes "this_lod this = Num l" and "this_xSegments this = Num xs"
  shows "gridX (grid_of fp this) =
           (if \<lfloor>round64 fp (l * xs)\<rfloor> = 0 then 1 else \<lfloor>round64 fp (l * xs)\<rfloor>)"
  using assms by (simp add: grid_of_def Let_def grid_count_Num)

lemma gridY_eq:
  assumes "this_lod this = Num l" and "this_ySegments this = Num ys"
  shows "gridY (grid_of fp this) = max 4 \<lfloor>round64 fp (l * ys)\<rfloor>"
proof -
  have "grid_count (Num 4) = 4"
    using grid_count_Num [of 4] by simp
  with assms show ?thesis
    by (simp add: grid_of_def Let_def grid_count_Num max_def floor_less_iff) linarith
qed

lemma gridY_pos: "1 \<le> gridY (grid_of fp this)"
proof (cases "js_floor (js_mul fp (this_lod this) (this_ySegments this))")
  case (Num f)
  then obtain l ys where "this_lod this = Num l" "this_ySegments this = Num ys"
    by (cases "this_lod this"; cases "this_ySegments this") simp_all
  then show ?thesis by (simp add: gridY_eq)
qed (simp_all add: grid_of_def Let_def grid_count_def js_or_def)

lemma gridX_valid:
  assumes "sanitized this" and "sound_rounding fp"
  shows "1 \<le> gridX (grid_of fp this)"
proof -
  from assms(1) obtain l xs where p: "this_lod this = Num l" "0 \<le> l"
      "this_xSegments this = Num xs" "0 < xs"
    unfolding sanitized_def by (blast dest: unit_intervalD positiveD)
  then have "0 \<le> l * xs" by simp
  with assms(2) have "0 \<le> round64 fp (l * xs)"
    unfolding sound_rounding_def by metis
  then show ?thesis
    by (simp add: gridX_eq [OF p(1) p(3)]) linarith
qed

lemma buildGrid_Inr:
  assumes "1 \<le> gridX (grid_of fp this)"
    and "gridX1 (grid_of fp this) * gridY1 (grid_of fp this) \<le> 4294967296"
  defines "g \<equiv> grid_of fp this"
  defines "ty \<equiv> (if 65535 < gridX1 g * gridY1 g then Uint32Array else Uint16Array)"
  shows "buildGrid fp this =
           Inr (this\<lparr>positions := v_positions (vertex_rows fp g 0 (new_vertex_loop g)),
                     normals := v_normals (vertex_rows fp g 0 (new_vertex_loop g)),
                     uv := v_uvs (vertex_rows fp g 0 (new_vertex_loop g)),
                     indices := i_indices (index_rows g ty 0 (new_index_loop g)),
                     indices_type := ty,
                     rebuilds := rebuilds this + 1\<rparr>)"
proof -
  have x: "1 \<le> gridX g" and y: "1 \<le> gridY g"
    using assms(1) gridY_pos [of fp this] by (simp_all add: g_def)
  have x1: "gridX1 g = gridX g + 1" and y1: "gridY1 g = gridY g + 1"
    by (simp_all add: g_def grid_of_sel)
  have v: "0 \<le> gridX1 g * gridY1 g" and c: "0 \<le> gridX g * gridY g"
    using x y by (simp_all add: x1 y1)
  have len: "length (v_positions (vertex_rows fp g 0 (new_vertex_loop g))) =
             nat (gridX1 g * gridY1 g * 3)"
    by (simp add: vertex_rows_sel new_vertex_loop_def)
  have "real (nat (gridX1 g * gridY1 g * 3)) / 3 = real_of_int (gridX1 g * gridY1 g)"
    using v by simp
  then have ty: "(if real (length (v_positions (vertex_rows fp g 0 (new_vertex_loop g)))) / 3 > 65535
          then Uint32Array else Uint16Array) = ty"
    unfolding len ty_def by (simp only: ) (simp add: of_int_less_iff [symmetric] del: of_int_less_iff of_int_mult)
  have b: "gridX1 g * gridY1 g \<le> 4294967296"
    using assms(2) by (simp add: g_def)
  have "gridX g * gridY g \<le> gridX1 g * gridY1 g"
    using x y by (simp add: x1 y1 algebra_simps)
  with b have cb: "gridX g * gridY g \<le> 4294967296" by simp
  have n1: "valid_length (gridX1 g * gridY1 g * 3)" "valid_length (gridX1 g * gridY1 g * 2)"
    and n2: "valid_length (gridX g * gridY g * 6)"
    using v c b cb by (simp_all add: valid_length_def)
  show ?thesis
    unfolding buildGrid_def g_def [symmetric] Let_def ty
    using n1 n2 by simp
qed

lemma built_position:
  assumes "1 \<le> gridX (grid_of fp this)"
    and "int ix < gridX1 (grid_of fp this)" and "int iy < gridY1 (grid_of fp this)"
    and "gridX1 (grid_of fp this) * gridY1 (grid_of fp this) \<le> 4294967296"
  defines "g \<equiv> grid_of fp this"
  shows "\<exists>m. buildGrid fp this = Inr m \<and>
           vertex_position (positions m) (iy * nat (gridX1 g) + ix) =
             (to_float32 fp (js_sub fp (js_mul fp (Num (of_nat ix)) (segmentWidth g)) (halfWidth g)),
              to_float32 fp (js_neg
                (js_sub fp (js_mul fp (Num (of_nat iy)) (segmentHeight g)) (halfHeight g))),
              Float32 0)"
proof -
  define n where "n = nat (gridX1 g)"
  define v where "v = iy * n + ix"
  define st where "st = new_vertex_loop g"
  have x1: "gridX1 g = gridX g + 1" and y1: "gridY1 g = gridY g + 1"
    by (simp_all add: g_def grid_of_sel)
  have ix: "ix < n" and iy: "iy < nat (gridY1 g)"
    using assms(2,3) by (simp_all add: n_def g_def)
  have "iy * n + ix < iy * n + n" using ix by simp
  also have "\<dots> = (iy + 1) * n" by simp
  also have "\<dots> \<le> nat (gridY1 g) * n" using iy by (intro mult_right_mono) simp_all
  finally have "v < n * nat (gridY1 g)" by (simp add: v_def mult.commute)
  also have "\<dots> = nat (gridX1 g * gridY1 g)"
    using assms(2) by (simp add: n_def nat_mult_distrib g_def)
  finally have v: "v < nat (gridX1 g * gridY1 g)" .
  have len: "length (v_positions st) = nat (gridX1 g * gridY1 g * 3)"
    by (simp add: st_def new_vertex_loop_def)
  have "3 * v + 2 < 3 * nat (gridX1 g * gridY1 g)" using v by simp
  also have "\<dots> = nat (gridX1 g * gridY1 g * 3)" by (simp add: nat_mult_distrib)
  finally have inside: "3 * v + 2 < length (v_positions st)" by (simp add: len)
  have off: "v_offset st = 0" by (simp add: st_def new_vertex_loop_def)
  have zero: "v_positions st ! (3 * v + 2) = Float32 0"
    using inside by (simp add: st_def new_vertex_loop_def)
  from vertex_rows_written [of 0 iy g ix st fp] assms(2,3) inside
  have w: "v_positions (vertex_rows fp g 0 st) ! (3 * v) =
          to_float32 fp (js_sub fp (js_mul fp (Num (of_nat ix)) (segmentWidth g)) (halfWidth g))"
        "v_positions (vertex_rows fp g 0 st) ! (3 * v + 1) =
          to_float32 fp (js_neg
            (js_sub fp (js_mul fp (Num (of_nat iy)) (segmentHeight g)) (halfHeight g)))"
    by (simp_all add: off v_def n_def g_def)
  from vertex_rows_z [of fp g 0 st v] zero
  have z: "v_positions (vertex_rows fp g 0 st) ! (3 * v + 2) = Float32 0"
    by (simp add: off)
  show ?thesis
    unfolding buildGrid_Inr [OF assms(1) assms(4), folded g_def] st_def [symmetric]
      n_def [symmetric] v_def [symmetric] vertex_position_def
    using w z by simp
qed

lemma cell_triangles_bounds:
  assumes "1 \<le> gridX g" and "gridX1 g = gridX g + 1" and "gridY1 g = gridY g + 1"
    and "int ix < gridX g" and "int iy < gridY g"
    and "e \<in> set (cell_triangles g iy ix)"
  shows "0 \<le> e \<and> e < gridX1 g * gridY1 g"
proof -
  have r: "gridX1 g * (int iy + 1) \<le> gridX1 g * gridY g"
    using assms(1,2,5) by (intro mult_left_mono) simp_all
  have r0: "gridX1 g * int iy \<le> gridX1 g * (int iy + 1)"
    using assms(1,2) by (intro mult_left_mono) simp_all
  have p: "0 \<le> gridX1 g * int iy"
    using assms(1,2) by simp
  have t: "gridX1 g * gridY1 g = gridX1 g * gridY g + gridX g + 1"
    by (simp add: assms(2,3) algebra_simps)
  from assms(6) consider "e = int ix + gridX1 g * int iy"
    | "e = int ix + gridX1 g * (int iy + 1)"
    | "e = (int ix + 1) + gridX1 g * (int iy + 1)"
    | "e = (int ix + 1) + gridX1 g * int iy"
    by (auto simp: cell_triangles_def Let_def)
  then show ?thesis
    using r r0 p assms(4) unfolding t by cases linarith+
qed

lemma to_uint_small:
  assumes "0 \<le> e" and "e < n"
    and "ty = (if 65535 < n then Uint32Array else Uint16Array)" and "n \<le> 4294967296"
  shows "to_uint ty e = nat e"
  using assms by (cases "65535 < n") simp_all

lemma exact_sel: "round64 exact x = x" "round32 exact x = x"
  by (simp_all add: exact_def)

lemma sound_rounding_exact: "sound_rounding exact"
  by (simp add: sound_rounding_def exact_def)

lemma plane_2x2_fields:
  "this_lod plane_2x2 = Num 1" "this_xSize plane_2x2 = Num 2" "this_ySize plane_2x2 = Num 2"
  "this_xSegments plane_2x2 = Num 1" "this_ySegments plane_2x2 = Num 4"
  "this_dirty plane_2x2" "pending plane_2x2 = 1" "warnings plane_2x2 = []"
  "rebuilds plane_2x2 = 0"
  by (simp_all add: plane_2x2_def init_def new_plane_def set_lod_def set_xSize_def
      set_ySize_def set_xSegments_def set_ySegments_def setter_defs)

lemma sanitized_plane_2x2: "sanitized plane_2x2"
  by (simp add: sanitized_def plane_2x2_fields)

lemma plane_2x2_grid:
  "gridX (grid_of exact plane_2x2) = 1" "gridY (grid_of exact plane_2x2) = 4"
  "gridX1 (grid_of exact plane_2x2) = 2" "gridY1 (grid_of exact plane_2x2) = 5"
  by (simp_all add: grid_of_sel gridX_eq [OF plane_2x2_fields(1,4)]
      gridY_eq [OF plane_2x2_fields(1,5)] exact_def)

subsection \<open>The example component, rebuilt\<close>

text \<open>
  The model run on the example configuration, in the arithmetic that rounds nothing: two
  columns and five rows of vertices, four cells, and the buffers a hand trace of
  \<^verbatim>\<open>_buildGrid\<close> gives.
\<close>

lemma grid_of_plane_2x2:
  "grid_of exact plane_2x2 = \<lparr>gridX = 1, gridY = 4, gridX1 = 2, gridY1 = 5,
     segmentWidth = Num 2, segmentHeight = Num (1 / 2), halfWidth = Num 1, halfHeight = Num 1\<rparr>"
  by (simp add: grid_of_def Let_def plane_2x2_fields grid_count_Num exact_sel
      grid_count_Num [of 1, simplified] grid_count_Num [of 4, simplified])

lemma indices_plane_2x2:
  "i_indices (index_rows (grid_of exact plane_2x2) Uint16Array 0 (new_index_loop (grid_of exact plane_2x2)))
   = [1, 2, 0, 1, 3, 2, 3, 4, 2, 3, 5, 4, 5, 6, 4, 5, 7, 6, 7, 8, 6, 7, 9, 8]"
  unfolding grid_of_plane_2x2
  by (simp add: index_rows.simps index_cols.simps emit_cell_def new_index_loop_def Let_def
      numeral_eq_Suc)

lemma vertex_loop_plane_2x2:
  "vertex_rows exact (grid_of exact plane_2x2) 0 (new_vertex_loop (grid_of exact plane_2x2))
   = \<lparr>v_positions = map Float32 [- 1, 1, 0, 1, 1, 0, - 1, 1 / 2, 0, 1, 1 / 2, 0, - 1, 0, 0, 1, 0, 0,
         - 1, - 1 / 2, 0, 1, - 1 / 2, 0, - 1, - 1, 0, 1, - 1, 0],
       v_normals = map Float32 [0, 0, - 1, 0, 0, - 1, 0, 0, - 1, 0, 0, - 1, 0, 0, - 1, 0, 0, - 1,
         0, 0, - 1, 0, 0, - 1, 0, 0, - 1, 0, 0, - 1],
       v_uvs = map Float32 [1, 0, 0, 0, 1, 1 / 4, 0, 1 / 4, 1, 1 / 2, 0, 1 / 2, 1, 3 / 4, 0, 3 / 4,
         1, 1, 0, 1],
       v_offset = 30, v_offset2 = 20\<rparr>"
  unfolding grid_of_plane_2x2
  by (simp add: vertex_rows.simps vertex_cols.simps emit_vertex_def new_vertex_loop_def Let_def
      numeral_eq_Suc exact_sel)

lemma buildGrid_plane_2x2:
  "buildGrid exact plane_2x2 =
     Inr (plane_2x2
       \<lparr>positions := map Float32 [- 1, 1, 0, 1, 1, 0, - 1, 1 / 2, 0, 1, 1 / 2, 0, - 1, 0, 0, 1, 0, 0,
          - 1, - 1 / 2, 0, 1, - 1 / 2, 0, - 1, - 1, 0, 1, - 1, 0],
        normals := map Float32 [0, 0, - 1, 0, 0, - 1, 0, 0, - 1, 0, 0, - 1, 0, 0, - 1, 0, 0, - 1,
          0, 0, - 1, 0, 0, - 1, 0, 0, - 1, 0, 0, - 1],
        uv := map Float32 [1, 0, 0, 0, 1, 1 / 4, 0, 1 / 4, 1, 1 / 2, 0, 1 / 2, 1, 3 / 4, 0, 3 / 4,
          1, 1, 0, 1],
        indices := [1, 2, 0, 1, 3, 2, 3, 4, 2, 3, 5, 4, 5, 6, 4, 5, 7, 6, 7, 8, 6, 7, 9, 8],
        indices_type := Uint16Array,
        rebuilds := 1\<rparr>)"
proof -
  have "1 \<le> gridX (grid_of exact plane_2x2)"
    and "gridX1 (grid_of exact plane_2x2) * gridY1 (grid_of exact plane_2x2) \<le> 4294967296"
    by (simp_all add: plane_2x2_grid)
  from buildGrid_Inr [OF this] show ?thesis
    by (simp add: vertex_loop_plane_2x2 indices_plane_2x2 plane_2x2_grid plane_2x2_fields)
qed

text \<open>
  The rebuild of a grid too large for a typed array throws, and the callback with it: the
  dirty flag is not cleared. So it is with a horizontal segment count of \<open>10^15\<close>.
\<close>

lemma buildGrid_RangeError:
  assumes "9007199254740991 < gridX1 (grid_of fp this) * gridY1 (grid_of fp this) * 3"
  shows "buildGrid fp this = Inl RangeError" and "tick2_callback fp this = Inl RangeError"
  using assms by (simp_all add: tick2_callback_def buildGrid_def valid_length_def Let_def)

lemma buildGrid_RangeError_example:
  "buildGrid exact (plane_2x2\<lparr>this_xSegments := Num 1000000000000000\<rparr>) = Inl RangeError"
proof -
  have "gridX (grid_of exact (plane_2x2\<lparr>this_xSegments := Num 1000000000000000\<rparr>)) =
      1000000000000000"
    using gridX_eq [of "plane_2x2\<lparr>this_xSegments := Num 1000000000000000\<rparr>" 1
        1000000000000000 exact]
    by (simp add: plane_2x2_fields exact_sel)
  moreover have "gridY (grid_of exact (plane_2x2\<lparr>this_xSegments := Num 1000000000000000\<rparr>)) = 4"
    using gridY_eq [of "plane_2x2\<lparr>this_xSegments := Num 1000000000000000\<rparr>" 1 4 exact]
    by (simp add: plane_2x2_fields exact_sel)
  ultimately show ?thesis
    by (intro buildGrid_RangeError) (simp add: grid_of_sel)
qed

text \<open>A width of \<open>10^39\<close> is stored as an infinity, whatever the rounding.\<close>

lemma to_float32_overflow:
  "to_float32 fp (Num (10 ^ 39)) = Float32_Infinity"
  "to_float32 fp (Num (- (10 ^ 39))) = Float32_NegInfinity"
  by simp_all

section \<open>The claims about the rebuild\<close>

text \<open>
  C1. For sanitised stored parameters whose grid has at most \<open>2^32\<close> vertices, the
  rebuild does not throw, and its buffers have the lengths
  \<open>positions.length = 3 * gridX1 * gridY1\<close>, \<open>normals.length = positions.length\<close>,
  \<open>uvs.length = 2 * gridX1 * gridY1\<close> and \<open>indices.length = 6 * gridX * gridY\<close>, where
  \<open>gridX1 = gridX + 1\<close> and \<open>gridY1 = gridY + 1\<close>. A larger grid is beyond what the
  typed arrays can hold: there the constructors throw.
\<close>

theorem buildGrid_buffer_lengths:
  assumes "sanitized this" and "sound_rounding fp"
    and "gridX1 (grid_of fp this) * gridY1 (grid_of fp this) \<le> 4294967296"
  shows "\<exists>m. buildGrid fp this = Inr m \<and>
           (let g = grid_of fp this in
              gridX1 g = gridX g + 1 \<and> gridY1 g = gridY g + 1 \<and>
              int (length (positions m)) = 3 * gridX1 g * gridY1 g \<and>
              length (normals m) = length (positions m) \<and>
              int (length (uv m)) = 2 * gridX1 g * gridY1 g \<and>
              int (length (indices m)) = 6 * gridX g * gridY g)"
proof -
  define g where "g = grid_of fp this"
  have x: "1 \<le> gridX g" and y: "1 \<le> gridY g"
    using gridX_valid [OF assms(1,2)] gridY_pos [of fp this] by (simp_all add: g_def)
  have x1: "gridX1 g = gridX g + 1" and y1: "gridY1 g = gridY g + 1"
    by (simp_all add: g_def grid_of_sel)
  have v: "0 \<le> gridX1 g * gridY1 g" and c: "0 \<le> gridX g * gridY g"
    using x y by (simp_all add: x1 y1)
  show ?thesis
    unfolding g_def [symmetric] Let_def
      buildGrid_Inr [OF gridX_valid [OF assms(1,2)] assms(3), folded g_def]
    using v c x1 y1
    by (simp add: vertex_rows_sel index_rows_sel new_vertex_loop_def new_index_loop_def)
qed

theorem buildGrid_buffer_lengths_witness:
  "sanitized plane_2x2 \<and> sound_rounding exact \<and>
   gridX1 (grid_of exact plane_2x2) * gridY1 (grid_of exact plane_2x2) \<le> 4294967296 \<and>
   (\<exists>m. buildGrid exact plane_2x2 = Inr m \<and> length (positions m) = 30 \<and>
      length (normals m) = 30 \<and> length (uv m) = 20 \<and> length (indices m) = 24)"
  using buildGrid_buffer_lengths [OF sanitized_plane_2x2 sound_rounding_exact]
  by (auto simp add: sanitized_plane_2x2 sound_rounding_exact plane_2x2_grid)

text \<open>
  C2. From a stored level of detail \<open>l \<ge> 0\<close> and stored segment counts \<open>xs > 0\<close> and
  \<open>ys\<close>, the rebuild derives \<open>gridX = max(1, floor(l * xs))\<close> and
  \<open>gridY = max(4, floor(l * ys))\<close>, the products being the rounded products of doubles.
  For \<open>l = 0\<close> and every \<open>ys\<close>, \<open>gridY\<close> is 4; it is never 0.
\<close>

theorem effective_grid_dimensions:
  assumes "this_lod this = Num l" and "this_xSegments this = Num xs"
    and "this_ySegments this = Num ys"
    and "0 \<le> l" and "0 < xs" and "sound_rounding fp"
  shows "gridX (grid_of fp this) = max 1 \<lfloor>round64 fp (l * xs)\<rfloor> \<and>
         gridY (grid_of fp this) = max 4 \<lfloor>round64 fp (l * ys)\<rfloor> \<and>
         (l = 0 \<longrightarrow> gridY (grid_of fp this) = 4) \<and>
         gridY (grid_of fp this) \<noteq> 0"
proof -
  from assms have "0 \<le> l * xs" by simp
  with assms(6) have "0 \<le> round64 fp (l * xs)"
    unfolding sound_rounding_def by metis
  then have "gridX (grid_of fp this) = max 1 \<lfloor>round64 fp (l * xs)\<rfloor>"
    by (simp add: gridX_eq [OF assms(1,2)] max_def) linarith
  moreover have "l = 0 \<longrightarrow> round64 fp (l * ys) = 0"
    using assms(6) by (simp add: sound_rounding_def)
  ultimately show ?thesis
    by (auto simp add: gridY_eq [OF assms(1,3)])
qed

theorem effective_grid_dimensions_witness:
  "this_lod plane_2x2 = Num 1 \<and> this_xSegments plane_2x2 = Num 1 \<and>
   this_ySegments plane_2x2 = Num 4 \<and> (0::real) \<le> 1 \<and> (0::real) < 1 \<and> sound_rounding exact \<and>
   gridX (grid_of exact plane_2x2) = 1 \<and> gridY (grid_of exact plane_2x2) = 4"
  using effective_grid_dimensions [OF plane_2x2_fields(1,4,5) _ _ sound_rounding_exact]
  by (simp add: plane_2x2_fields sound_rounding_exact plane_2x2_grid)

text \<open>
  C3. On a sanitised component whose grid has at most \<open>2^32\<close> vertices, the rebuild
  does not throw, and for every vertex at column \<open>ix < gridX1\<close> and row \<open>iy < gridY1\<close>
  the position emitted for it is \<open>(x, -y, 0)\<close> with \<open>x = ix * segmentWidth - width / 2\<close>,
  \<open>y = iy * segmentHeight - height / 2\<close>, \<open>segmentWidth = width / gridX\<close> and
  \<open>segmentHeight = height / gridY\<close>, each operation being the one of doubles and each
  coordinate as the store into the \<^verbatim>\<open>Float32Array\<close> leaves it: in single precision, an
  infinity when the double is too large. For \<open>width = 2\<close>, \<open>height = 2\<close>, \<open>gridX = 1\<close>
  and \<open>gridY = 4\<close>, where the numbers involved are not rounded, the vertex at
  \<open>(0, 0)\<close> has the position \<open>(-1, 1, 0)\<close>.
\<close>

theorem vertex_positions:
  assumes "sanitized this" and "sound_rounding fp"
    and "int ix < gridX1 (grid_of fp this)" and "int iy < gridY1 (grid_of fp this)"
    and "gridX1 (grid_of fp this) * gridY1 (grid_of fp this) \<le> 4294967296"
  shows "\<exists>m. buildGrid fp this = Inr m \<and>
     (let g = grid_of fp this;
          width = this_xSize this;
          height = this_ySize this;
          segmentWidth = js_div fp width (Num (of_int (gridX g)));
          segmentHeight = js_div fp height (Num (of_int (gridY g)));
          x = js_sub fp (js_mul fp (Num (of_nat ix)) segmentWidth) (js_div fp width (Num 2));
          y = js_sub fp (js_mul fp (Num (of_nat iy)) segmentHeight) (js_div fp height (Num 2))
      in vertex_position (positions m) (iy * nat (gridX1 g) + ix) =
           (to_float32 fp x, to_float32 fp (js_neg y), Float32 0) \<and>
         (width = Num 2 \<and> height = Num 2 \<and> gridX g = 1 \<and> gridY g = 4 \<and>
          exact_on fp {- 1, 0, 1} \<longrightarrow>
            vertex_position (positions m) 0 = (Float32 (- 1), Float32 1, Float32 0)))"
proof -
  define g where "g = grid_of fp this"
  have x: "1 \<le> gridX g"
    using gridX_valid [OF assms(1,2)] by (simp add: g_def)
  have x1: "gridX1 g = gridX g + 1" and y1: "gridY1 g = gridY g + 1"
    by (simp_all add: g_def grid_of_sel)
  have y: "1 \<le> gridY g" using gridY_pos [of fp this] by (simp add: g_def)
  from built_position [OF x [unfolded g_def] assms(3,4,5)]
  obtain m where m: "buildGrid fp this = Inr m"
    and general: "vertex_position (positions m) (iy * nat (gridX1 g) + ix) =
       (to_float32 fp (js_sub fp (js_mul fp (Num (of_nat ix)) (segmentWidth g)) (halfWidth g)),
        to_float32 fp (js_neg
          (js_sub fp (js_mul fp (Num (of_nat iy)) (segmentHeight g)) (halfHeight g))),
        Float32 0)"
    unfolding g_def by blast
  from built_position [OF x [unfolded g_def] _ _ assms(5), of 0 0] x y m
  have first: "vertex_position (positions m) 0 =
       (to_float32 fp (js_sub fp (js_mul fp (Num 0) (segmentWidth g)) (halfWidth g)),
        to_float32 fp (js_neg
          (js_sub fp (js_mul fp (Num 0) (segmentHeight g)) (halfHeight g))),
        Float32 0)"
    by (simp add: g_def [symmetric] x1 y1)
  have example: "vertex_position (positions m) 0 = (Float32 (- 1), Float32 1, Float32 0)"
    if "this_xSize this = Num 2" "this_ySize this = Num 2" "gridX g = 1" "gridY g = 4"
      and e: "exact_on fp {- 1, 0, 1}"
  proof -
    from e have r: "round64 fp 0 = 0" "round64 fp 1 = 1" "round64 fp (- 1) = - 1"
      "round32 fp (- 1) = - 1" "round32 fp 1 = 1"
      by (simp_all add: exact_on_def)
    have "segmentWidth g = Num (round64 fp 2)" "halfWidth g = Num 1"
      "segmentHeight g = Num (round64 fp (1 / 2))" "halfHeight g = Num 1"
      using that(1-4) by (simp_all add: g_def grid_of_sel r)
    then show ?thesis
      unfolding first by (simp add: r)
  qed
  show ?thesis
    using m general example
    by (simp add: Let_def g_def [symmetric] grid_of_sel [of fp this, folded g_def, symmetric])
qed

theorem vertex_positions_witness:
  "sanitized plane_2x2 \<and> sound_rounding exact \<and>
   int 1 < gridX1 (grid_of exact plane_2x2) \<and> int 4 < gridY1 (grid_of exact plane_2x2) \<and>
   this_xSize plane_2x2 = Num 2 \<and> this_ySize plane_2x2 = Num 2 \<and>
   gridX (grid_of exact plane_2x2) = 1 \<and> gridY (grid_of exact plane_2x2) = 4 \<and>
   exact_on exact {- 1, 0, 1} \<and>
   gridX1 (grid_of exact plane_2x2) * gridY1 (grid_of exact plane_2x2) \<le> 4294967296 \<and>
   (\<exists>m. buildGrid exact plane_2x2 = Inr m \<and>
      vertex_position (positions m) 9 = (Float32 1, Float32 (- 1), Float32 0) \<and>
      vertex_position (positions m) 0 = (Float32 (- 1), Float32 1, Float32 0))"
  using vertex_positions [OF sanitized_plane_2x2 sound_rounding_exact, of 1 4]
  by (auto simp add: sanitized_plane_2x2 sound_rounding_exact plane_2x2_fields plane_2x2_grid
      exact_on_def exact_sel Let_def)

text \<open>
  C4. For every cell \<open>(ix, iy)\<close> with \<open>ix < gridX\<close> and \<open>iy < gridY\<close>, and with
  \<open>a = ix + gridX1 * iy\<close>, \<open>b = ix + gridX1 * (iy + 1)\<close>,
  \<open>c = (ix + 1) + gridX1 * (iy + 1)\<close> and \<open>d = (ix + 1) + gridX1 * iy\<close>, the six entries
  of the index buffer from offset \<open>6 * (iy * gridX + ix)\<close> on are \<open>d, b, a, d, c, b\<close>.
  The vertex count is taken to fit the 32-bit element, so that no stored index wraps.
\<close>

theorem cell_triangles_in_index_buffer:
  assumes "sanitized this" and "sound_rounding fp"
    and "int ix < gridX (grid_of fp this)" and "int iy < gridY (grid_of fp this)"
    and "gridX1 (grid_of fp this) * gridY1 (grid_of fp this) \<le> 4294967296"
  shows "\<exists>m. buildGrid fp this = Inr m \<and>
           (let g = grid_of fp this;
                a = int ix + gridX1 g * int iy;
                b = int ix + gridX1 g * (int iy + 1);
                c = (int ix + 1) + gridX1 g * (int iy + 1);
                d = (int ix + 1) + gridX1 g * int iy
            in take 6 (drop (6 * (iy * nat (gridX g) + ix)) (indices m)) =
                 map nat [d, b, a, d, c, b])"
proof -
  define g where "g = grid_of fp this"
  define ty where "ty = (if 65535 < gridX1 g * gridY1 g then Uint32Array else Uint16Array)"
  define n where "n = nat (gridX g)"
  define k where "k = iy * n + ix"
  define st where "st = new_index_loop g"
  have x: "1 \<le> gridX g"
    using gridX_valid [OF assms(1,2)] by (simp add: g_def)
  have x1: "gridX1 g = gridX g + 1" and y1: "gridY1 g = gridY g + 1"
    by (simp_all add: g_def grid_of_sel)
  have ix: "ix < n" and iy: "iy < nat (gridY g)"
    using assms(3,4) by (simp_all add: n_def g_def)
  have "iy * n + ix < iy * n + n" using ix by simp
  also have "\<dots> = (iy + 1) * n" by simp
  also have "\<dots> \<le> nat (gridY g) * n" using iy by (intro mult_right_mono) simp_all
  finally have "k < n * nat (gridY g)" by (simp add: k_def mult.commute)
  also have "\<dots> = nat (gridX g * gridY g)"
    using x by (simp add: n_def nat_mult_distrib)
  finally have k: "k < nat (gridX g * gridY g)" .
  have "6 * k + 5 < 6 * nat (gridX g * gridY g)" using k by simp
  also have "\<dots> = nat (gridX g * gridY g * 6)" by (simp add: nat_mult_distrib)
  finally have inside: "6 * k + 5 < length (i_indices st)"
    by (simp add: st_def new_index_loop_def)
  have off: "i_offset st = 0" by (simp add: st_def new_index_loop_def)
  from index_rows_written [of 0 iy g ix st ty] assms(3,4) inside
  have w: "take 6 (drop (6 * k) (i_indices (index_rows g ty 0 st))) =
           map (to_uint ty) (cell_triangles g iy ix)"
    by (simp add: off k_def n_def g_def)
  have "map (to_uint ty) (cell_triangles g iy ix) = map nat (cell_triangles g iy ix)"
  proof (rule map_cong [OF refl])
    fix e assume "e \<in> set (cell_triangles g iy ix)"
    from cell_triangles_bounds [OF x x1 y1 _ _ this] assms(3,4)
    have "0 \<le> e \<and> e < gridX1 g * gridY1 g" by (simp add: g_def)
    then show "to_uint ty e = nat e"
      using assms(5) by (intro to_uint_small [where n = "gridX1 g * gridY1 g"])
        (simp_all add: ty_def g_def)
  qed
  with w have "take 6 (drop (6 * k) (i_indices (index_rows g ty 0 st))) =
           map nat (cell_triangles g iy ix)" by simp
  then show ?thesis
    unfolding buildGrid_Inr [OF gridX_valid [OF assms(1,2)] assms(5), folded g_def, folded ty_def]
      st_def [symmetric] g_def [symmetric] Let_def
    by (simp add: cell_triangles_def Let_def k_def n_def)
qed

theorem cell_triangles_in_index_buffer_witness:
  "sanitized plane_2x2 \<and> sound_rounding exact \<and>
   int 0 < gridX (grid_of exact plane_2x2) \<and> int 3 < gridY (grid_of exact plane_2x2) \<and>
   gridX1 (grid_of exact plane_2x2) * gridY1 (grid_of exact plane_2x2) \<le> 4294967296 \<and>
   (\<exists>m. buildGrid exact plane_2x2 = Inr m \<and>
      take 6 (drop 18 (indices m)) = [7, 8, 6, 7, 9, 8])"
  using cell_triangles_in_index_buffer [OF sanitized_plane_2x2 sound_rounding_exact, of 0 3]
  by (simp add: sanitized_plane_2x2 sound_rounding_exact plane_2x2_grid)

text \<open>
  C5. On a sanitised component whose grid has at most \<open>2^32\<close> vertices, the rebuild
  does not throw, and the element type of the index buffer is the 32-bit one exactly when
  the vertex count \<open>gridX1 * gridY1\<close> exceeds 65535, and the 16-bit one otherwise; the
  count is the one of the position buffer just built, a third of its length.
\<close>

theorem index_element_type:
  assumes "sanitized this" and "sound_rounding fp"
    and "gridX1 (grid_of fp this) * gridY1 (grid_of fp this) \<le> 4294967296"
  shows "\<exists>m. buildGrid fp this = Inr m \<and>
           (let count = gridX1 (grid_of fp this) * gridY1 (grid_of fp this) in
              int (length (positions m)) = 3 * count \<and>
              (indices_type m = Uint32Array \<longleftrightarrow> 65535 < count) \<and>
              (indices_type m = Uint16Array \<longleftrightarrow> count \<le> 65535))"
proof -
  define g where "g = grid_of fp this"
  have x: "1 \<le> gridX g" and y: "1 \<le> gridY g"
    using gridX_valid [OF assms(1,2)] gridY_pos [of fp this] by (simp_all add: g_def)
  have x1: "gridX1 g = gridX g + 1" and y1: "gridY1 g = gridY g + 1"
    by (simp_all add: g_def grid_of_sel)
  have v: "0 \<le> gridX1 g * gridY1 g"
    using x y by (simp add: x1 y1)
  show ?thesis
    unfolding g_def [symmetric] Let_def
      buildGrid_Inr [OF gridX_valid [OF assms(1,2)] assms(3), folded g_def]
    using v by (simp add: vertex_rows_sel new_vertex_loop_def)
qed

theorem index_element_type_witness:
  "sanitized plane_2x2 \<and> sound_rounding exact \<and>
   gridX1 (grid_of exact plane_2x2) * gridY1 (grid_of exact plane_2x2) \<le> 4294967296 \<and>
   (\<exists>m. buildGrid exact plane_2x2 = Inr m \<and> length (positions m) = 30 \<and>
      indices_type m = Uint16Array)"
  using index_element_type [OF sanitized_plane_2x2 sound_rounding_exact]
  by (auto simp add: sanitized_plane_2x2 sound_rounding_exact plane_2x2_grid)

section \<open>The setters and the deferred rebuild\<close>

lemmas set_defs = set_lod_def set_xSize_def set_ySize_def set_xSegments_def set_ySegments_def

lemma lod_in_range_set_lod:
  "lod_in_range (this_lod this) \<Longrightarrow> lod_in_range (this_lod (set_lod v this))"
  by (cases v) (auto simp: lod_in_range_def set_lod_def setter_defs)

lemma set_lod_cases:
  "set_lod v this = this \<or> notified ''lod'' (this_lod (set_lod v this)) this (set_lod v this)"
  by (simp add: set_lod_def notified_def setter_defs)

lemma set_xSize_cases:
  "set_xSize v this = this \<or>
   notified ''xSize'' (this_xSize (set_xSize v this)) this (set_xSize v this)"
  by (simp add: set_xSize_def notified_def setter_defs)

lemma set_ySize_cases:
  "set_ySize v this = this \<or>
   notified ''ySize'' (this_ySize (set_ySize v this)) this (set_ySize v this)"
  by (simp add: set_ySize_def notified_def setter_defs)

lemma set_xSegments_cases:
  "set_xSegments v this = this \<or>
   notified ''xSegments'' (this_xSegments (set_xSegments v this)) this (set_xSegments v this)"
  by (simp add: set_xSegments_def notified_def setter_defs)

lemma set_ySegments_cases:
  "set_ySegments v this = this \<or>
   notified ''ySegments'' (this_ySegments (set_ySegments v this)) this (set_ySegments v this)"
  by (simp add: set_ySegments_def notified_def setter_defs)

lemma apply_call_cases:
  "apply_call c this = this \<or>
   (this_dirty (apply_call c this) \<and>
    pending (apply_call c this) = (if this_dirty this then pending this else pending this + 1))"
proof (cases c)
  case (SetLod v)
  with set_lod_cases [of v this] show ?thesis by (auto simp: notified_def)
next
  case (SetXSize v)
  with set_xSize_cases [of v this] show ?thesis by (auto simp: notified_def)
next
  case (SetYSize v)
  with set_ySize_cases [of v this] show ?thesis by (auto simp: notified_def)
next
  case (SetXSegments v)
  with set_xSegments_cases [of v this] show ?thesis by (auto simp: notified_def)
next
  case (SetYSegments v)
  with set_ySegments_cases [of v this] show ?thesis by (auto simp: notified_def)
qed

lemma apply_call_rebuilds: "rebuilds (apply_call c this) = rebuilds this"
  by (cases c) (simp_all add: set_defs setter_defs)

lemma set_lod_never_negative: "never_negative this \<Longrightarrow> never_negative (set_lod v this)"
  by (cases v) (simp_all add: never_negative_def set_lod_def setter_defs)

lemma set_xSegments_never_negative:
  "never_negative this \<Longrightarrow> never_negative (set_xSegments v this)"
  by (cases v) (simp_all add: never_negative_def set_xSegments_def setter_defs)

lemma apply_call_never_negative:
  "never_negative this \<Longrightarrow> never_negative (apply_call c this)"
proof (cases c)
  case (SetLod v)
  then show "never_negative this \<Longrightarrow> ?thesis" by (simp add: set_lod_never_negative)
next
  case (SetXSegments v)
  then show "never_negative this \<Longrightarrow> ?thesis" by (simp add: set_xSegments_never_negative)
qed (simp_all add: never_negative_def set_xSize_def set_ySize_def set_ySegments_def setter_defs)

lemma apply_calls_dirty:
  "this_dirty this \<Longrightarrow>
   this_dirty (apply_calls cs this) \<and> pending (apply_calls cs this) = pending this"
proof (induction cs arbitrary: this)
  case Nil
  then show ?case by simp
next
  case (Cons c cs)
  from apply_call_cases [of c this] Cons.prems
  have "this_dirty (apply_call c this) \<and> pending (apply_call c this) = pending this"
    by auto
  with Cons.IH [of "apply_call c this"] show ?case by simp
qed

lemma apply_calls_rebuilds: "rebuilds (apply_calls cs this) = rebuilds this"
  by (induction cs arbitrary: this) (simp_all add: apply_call_rebuilds)

lemma apply_calls_never_negative:
  "never_negative this \<Longrightarrow> never_negative (apply_calls cs this)"
  by (induction cs arbitrary: this) (simp_all add: apply_call_never_negative)

lemma gridX_never_negative:
  assumes "never_negative this" and "sound_rounding fp"
  shows "1 \<le> gridX (grid_of fp this)"
proof (cases "this_lod this")
  case (Num l)
  note lod = this
  show ?thesis
  proof (cases "this_xSegments this")
    case (Num xs)
    from assms(1) lod Num have "0 \<le> l * xs"
      by (simp add: never_negative_def)
    with assms(2) have "0 \<le> round64 fp (l * xs)"
      unfolding sound_rounding_def by metis
    then show ?thesis
      by (simp add: gridX_eq [OF lod Num]) linarith
  qed (simp_all add: grid_of_def Let_def lod grid_count_NaN)
qed (simp_all add: grid_of_def Let_def grid_count_NaN)

lemma never_negative_sanitized: "sanitized this \<Longrightarrow> never_negative this"
  unfolding sanitized_def never_negative_def
  by (auto dest!: unit_intervalD positiveD)

lemma tick2_callback_Inr:
  assumes "never_negative this" and "sound_rounding fp"
    and "gridX1 (grid_of fp this) * gridY1 (grid_of fp this) \<le> 4294967296"
  shows "\<exists>b. buildGrid fp this = Inr b \<and> tick2_callback fp this = Inr (b\<lparr>this_dirty := False\<rparr>) \<and>
           this_dirty b = this_dirty this \<and> pending b = pending this \<and>
           rebuilds b = rebuilds this + 1 \<and> fired b = fired this \<and> warnings b = warnings this \<and>
           this_lod b = this_lod this \<and> this_xSize b = this_xSize this \<and>
           this_ySize b = this_ySize this \<and> this_xSegments b = this_xSegments this \<and>
           this_ySegments b = this_ySegments this"
  by (simp add: tick2_callback_def
      buildGrid_Inr [OF gridX_never_negative [OF assms(1,2)] assms(3)])

lemma grid_of_pending: "grid_of fp (this\<lparr>pending := n\<rparr>) = grid_of fp this"
  by (simp add: grid_of_def)

lemma tick2_once:
  assumes "never_negative this" and "sound_rounding fp" and "pending this = 1"
    and "gridX1 (grid_of fp this) * gridY1 (grid_of fp this) \<le> 4294967296"
  shows "\<exists>this'. tick2 fp this = Inr this' \<and> rebuilds this' = rebuilds this + 1 \<and>
           pending this' = 0 \<and> \<not> this_dirty this'"
proof -
  have "never_negative (this\<lparr>pending := 0\<rparr>)"
    using assms(1) by (simp add: never_negative_def)
  moreover have "gridX1 (grid_of fp (this\<lparr>pending := 0\<rparr>)) *
      gridY1 (grid_of fp (this\<lparr>pending := 0\<rparr>)) \<le> 4294967296"
    using assms(4) by (simp add: grid_of_pending)
  ultimately show ?thesis
    using tick2_callback_Inr [of "this\<lparr>pending := 0\<rparr>" fp] assms(2,3)
    by (auto simp add: tick2_def)
qed

lemma never_negative_new_plane: "never_negative new_plane"
  by (simp add: never_negative_def new_plane_def)

lemma fired_grows: "fired this' = fired this @ [e] \<Longrightarrow> this' \<noteq> this"
  by auto

lemma set_lod_guard:
  "(set_lod v this = this) = strict_eq (this_lod this) (if v \<noteq> Undefined then v else Num 1)"
proof (cases "strict_eq (this_lod this) (if v \<noteq> Undefined then v else Num 1)")
  case True
  then show ?thesis by (simp add: set_lod_def)
next
  case False
  then have "fired (set_lod v this) = fired this @ [(''lod'', this_lod (set_lod v this))]"
    by (simp add: set_lod_def setter_defs)
  from fired_grows [OF this] False show ?thesis by simp
qed

lemma set_xSize_guard:
  "(set_xSize v this = this) = strict_eq (this_xSize this) (js_or v (Num 1))"
proof (cases "strict_eq (this_xSize this) (js_or v (Num 1))")
  case True
  then show ?thesis by (simp add: set_xSize_def)
next
  case False
  then have "fired (set_xSize v this) = fired this @ [(''xSize'', this_xSize (set_xSize v this))]"
    by (simp add: set_xSize_def gridDirty_def scene_once_tick2_def warn_def fire_def Let_def)
  from fired_grows [OF this] False show ?thesis by simp
qed

lemma set_ySize_guard:
  "(set_ySize v this = this) = strict_eq (this_ySize this) (js_or v (Num (1 / 4)))"
proof (cases "strict_eq (this_ySize this) (js_or v (Num (1 / 4)))")
  case True
  then show ?thesis by (simp add: set_ySize_def)
next
  case False
  then have "fired (set_ySize v this) = fired this @ [(''ySize'', this_ySize (set_ySize v this))]"
    by (simp add: set_ySize_def gridDirty_def scene_once_tick2_def warn_def fire_def Let_def)
  from fired_grows [OF this] False show ?thesis by simp
qed

lemma set_xSegments_guard:
  "(set_xSegments v this = this) = strict_eq (this_xSegments this) (js_or v (Num 4))"
proof (cases "strict_eq (this_xSegments this) (js_or v (Num 4))")
  case True
  then show ?thesis by (simp add: set_xSegments_def)
next
  case False
  then have "fired (set_xSegments v this) =
      fired this @ [(''xSegments'', this_xSegments (set_xSegments v this))]"
    by (simp add: set_xSegments_def gridDirty_def scene_once_tick2_def warn_def fire_def Let_def)
  from fired_grows [OF this] False show ?thesis by simp
qed

lemma set_ySegments_guard:
  "(set_ySegments v this = this) = strict_eq (this_ySegments this) (js_or v (Num 4))"
proof (cases "strict_eq (this_ySegments this) (js_or v (Num 4))")
  case True
  then show ?thesis by (simp add: set_ySegments_def)
next
  case False
  then have "fired (set_ySegments v this) =
      fired this @ [(''ySegments'', this_ySegments (set_ySegments v this))]"
    by (simp add: set_ySegments_def gridDirty_def scene_once_tick2_def warn_def fire_def Let_def)
  from fired_grows [OF this] False show ?thesis by simp
qed

lemma set_lod_clamped_same:
  assumes "this_lod this = Num l" and "(x < 0 \<and> l = 0) \<or> (1 < x \<and> l = 1)"
  shows "this_lod (set_lod (Num x) this) = Num l \<and>
         notified ''lod'' (Num l) this (set_lod (Num x) this) \<and>
         warnings (set_lod (Num x) this) = warnings this @ [''clamping lod to [0..1]'']"
  using assms by (auto simp add: set_lod_def notified_def setter_defs)

lemma set_xSize_negated:
  assumes "this_xSize this = Num w" and "0 < w"
  shows "this_xSize (set_xSize (Num (- w)) this) = Num w \<and>
         notified ''xSize'' (Num w) this (set_xSize (Num (- w)) this)"
  using assms by (simp add: set_xSize_def notified_def setter_defs)

lemma set_ySize_negated:
  assumes "this_ySize this = Num w" and "0 < w"
  shows "this_ySize (set_ySize (Num (- w)) this) = Num w \<and>
         notified ''ySize'' (Num w) this (set_ySize (Num (- w)) this)"
  using assms by (simp add: set_ySize_def notified_def setter_defs)

lemma set_xSegments_negated:
  assumes "this_xSegments this = Num w" and "0 < w"
  shows "this_xSegments (set_xSegments (Num (- w)) this) = Num w \<and>
         notified ''xSegments'' (Num w) this (set_xSegments (Num (- w)) this)"
  using assms by (simp add: set_xSegments_def notified_def setter_defs)

lemma set_ySegments_negated:
  assumes "this_ySegments this = Num w" and "0 < w"
  shows "this_ySegments (set_ySegments (Num (- w)) this) = Num w \<and>
         notified ''ySegments'' (Num w) this (set_ySegments (Num (- w)) this)"
  using assms by (simp add: set_ySegments_def notified_def setter_defs)

lemma tick2_callback_during_Inr:
  assumes "never_negative this" and "sound_rounding fp"
    and "gridX1 (grid_of fp this) * gridY1 (grid_of fp this) \<le> 4294967296"
  shows "\<exists>b. buildGrid fp this = Inr b \<and>
           tick2_callback_during fp during this = Inr ((during b)\<lparr>this_dirty := False\<rparr>) \<and>
           this_dirty b = this_dirty this \<and> pending b = pending this \<and>
           this_lod b = this_lod this"
  by (simp add: tick2_callback_during_def
      buildGrid_Inr [OF gridX_never_negative [OF assms(1,2)] assms(3)])

text \<open>
  The hypotheses of the statements below hold of the component as the code leaves it:
  \<^verbatim>\<open>_init\<close> ends in a sanitised state and the setters keep it so, a \<^verbatim>\<open>NaN\<close> level of
  detail apart, which the setter stores as it is.
\<close>

lemma setter_frames:
  "this_lod (set_xSize v this) = this_lod this"
  "this_lod (set_ySize v this) = this_lod this"
  "this_lod (set_xSegments v this) = this_lod this"
  "this_lod (set_ySegments v this) = this_lod this"
  "this_xSize (set_lod v this) = this_xSize this"
  "this_xSize (set_ySize v this) = this_xSize this"
  "this_xSize (set_xSegments v this) = this_xSize this"
  "this_xSize (set_ySegments v this) = this_xSize this"
  "this_ySize (set_lod v this) = this_ySize this"
  "this_ySize (set_xSize v this) = this_ySize this"
  "this_ySize (set_xSegments v this) = this_ySize this"
  "this_ySize (set_ySegments v this) = this_ySize this"
  "this_xSegments (set_lod v this) = this_xSegments this"
  "this_xSegments (set_xSize v this) = this_xSegments this"
  "this_xSegments (set_ySize v this) = this_xSegments this"
  "this_xSegments (set_ySegments v this) = this_xSegments this"
  "this_ySegments (set_lod v this) = this_ySegments this"
  "this_ySegments (set_xSize v this) = this_ySegments this"
  "this_ySegments (set_ySize v this) = this_ySegments this"
  "this_ySegments (set_xSegments v this) = this_ySegments this"
  by (simp_all add: set_defs setter_defs)

lemma set_lod_unit_interval:
  "v \<noteq> NaN \<Longrightarrow> this_lod this = Undefined \<or> unit_interval (this_lod this) \<Longrightarrow>
   unit_interval (this_lod (set_lod v this))"
  by (cases v; cases "this_lod this") (auto simp: set_lod_def setter_defs)

lemma set_xSize_positive:
  "this_xSize this = Undefined \<or> positive (this_xSize this) \<Longrightarrow>
   positive (this_xSize (set_xSize v this))"
  by (cases v; cases "this_xSize this") (auto simp: set_xSize_def setter_defs)

lemma set_ySize_positive:
  "this_ySize this = Undefined \<or> positive (this_ySize this) \<Longrightarrow>
   positive (this_ySize (set_ySize v this))"
  by (cases v; cases "this_ySize this") (auto simp: set_ySize_def setter_defs)

lemma set_xSegments_positive:
  "this_xSegments this = Undefined \<or> positive (this_xSegments this) \<Longrightarrow>
   positive (this_xSegments (set_xSegments v this))"
  by (cases v; cases "this_xSegments this") (auto simp: set_xSegments_def setter_defs)

lemma set_ySegments_positive:
  "this_ySegments this = Undefined \<or> positive (this_ySegments this) \<Longrightarrow>
   positive (this_ySegments (set_ySegments v this))"
  by (cases v; cases "this_ySegments this") (auto simp: set_ySegments_def setter_defs)

lemma sanitized_init: "cfg_lod cfg \<noteq> NaN \<Longrightarrow> sanitized (init cfg)"
  unfolding sanitized_def init_def
  by (simp add: setter_frames set_lod_unit_interval set_xSize_positive set_ySize_positive
      set_xSegments_positive set_ySegments_positive new_plane_def)

lemma sanitized_apply_call:
  assumes "sanitized this" and "c \<noteq> SetLod NaN"
  shows "sanitized (apply_call c this)"
proof (cases c)
  case (SetLod v)
  with assms show ?thesis
    by (simp add: sanitized_def setter_frames set_lod_unit_interval)
next
  case (SetXSize v)
  with assms show ?thesis
    by (simp add: sanitized_def setter_frames set_xSize_positive)
next
  case (SetYSize v)
  with assms show ?thesis
    by (simp add: sanitized_def setter_frames set_ySize_positive)
next
  case (SetXSegments v)
  with assms show ?thesis
    by (simp add: sanitized_def setter_frames set_xSegments_positive)
next
  case (SetYSegments v)
  with assms show ?thesis
    by (simp add: sanitized_def setter_frames set_ySegments_positive)
qed

lemma lod_in_range_apply_call:
  "lod_in_range (this_lod this) \<Longrightarrow> lod_in_range (this_lod (apply_call c this))"
  by (cases c) (simp_all add: setter_frames lod_in_range_set_lod)

lemma lod_in_range_reachable: "lod_in_range (this_lod (apply_calls cs new_plane))"
proof -
  have "lod_in_range (this_lod this) \<Longrightarrow> lod_in_range (this_lod (apply_calls cs this))" for this
    by (induction cs arbitrary: this) (simp_all add: lod_in_range_apply_call)
  then show ?thesis by (simp add: lod_in_range_def new_plane_def)
qed

section \<open>The claims about the setters and the deferred rebuild\<close>

text \<open>
  C6, as the code has it. The callback runs the rebuild first and clears the dirty flag
  last: the flag is still set when the rebuild work has run. Code that calls a setter
  while the rebuild is running therefore finds the grid dirty, and no new callback is
  registered; after the callback the flag is clear and as many callbacks are pending as
  before. The grid is one the typed arrays can hold, of at most \<open>2^32\<close> vertices, so that
  the rebuild does not throw.
\<close>

theorem dirty_cleared_after_rebuild:
  assumes "this_dirty this" and "never_negative this" and "sound_rounding fp"
    and "gridX1 (grid_of fp this) * gridY1 (grid_of fp this) \<le> 4294967296"
  shows "\<exists>b this'. buildGrid fp this = Inr b \<and> this_dirty b \<and>
           tick2_callback fp this = Inr (b\<lparr>this_dirty := False\<rparr>) \<and>
           tick2_callback_during fp (apply_call c) this = Inr this' \<and>
           pending this' = pending this \<and> \<not> this_dirty this'"
proof -
  from tick2_callback_Inr [OF assms(2,3,4)] obtain b where b: "buildGrid fp this = Inr b"
    "tick2_callback fp this = Inr (b\<lparr>this_dirty := False\<rparr>)"
    "this_dirty b = this_dirty this" "pending b = pending this"
    by blast
  from apply_call_cases [of c b] b(3,4) assms(1)
  have "pending (apply_call c b) = pending this" by auto
  with b assms(1) show ?thesis
    by (simp add: tick2_callback_during_def)
qed

theorem dirty_cleared_after_rebuild_witness:
  "this_dirty (plane_2x2\<lparr>pending := 0\<rparr>) \<and> never_negative (plane_2x2\<lparr>pending := 0\<rparr>) \<and>
   sound_rounding exact \<and>
   gridX1 (grid_of exact (plane_2x2\<lparr>pending := 0\<rparr>)) *
     gridY1 (grid_of exact (plane_2x2\<lparr>pending := 0\<rparr>)) \<le> 4294967296 \<and>
   (\<exists>b this'. buildGrid exact (plane_2x2\<lparr>pending := 0\<rparr>) = Inr b \<and> this_dirty b \<and>
      tick2_callback exact (plane_2x2\<lparr>pending := 0\<rparr>) = Inr (b\<lparr>this_dirty := False\<rparr>) \<and>
      tick2_callback_during exact (apply_call (SetLod (Num (1 / 2)))) (plane_2x2\<lparr>pending := 0\<rparr>)
        = Inr this' \<and>
      pending this' = 0 \<and> \<not> this_dirty this')"
proof -
  have a: "this_dirty (plane_2x2\<lparr>pending := 0\<rparr>)" "never_negative (plane_2x2\<lparr>pending := 0\<rparr>)"
    by (simp_all add: plane_2x2_fields never_negative_def)
  have g: "gridX1 (grid_of exact (plane_2x2\<lparr>pending := 0\<rparr>)) *
     gridY1 (grid_of exact (plane_2x2\<lparr>pending := 0\<rparr>)) \<le> 4294967296"
    by (simp add: grid_of_pending plane_2x2_grid)
  from dirty_cleared_after_rebuild [OF a sound_rounding_exact g, of "SetLod (Num (1 / 2))"]
  show ?thesis
    using a g sound_rounding_exact by simp
qed

text \<open>
  As written, the claim fails. Take the component built from the example configuration,
  as the tick hands it to the callback (the callback is off the scene's list). The flag
  is still set after \<^verbatim>\<open>_buildGrid\<close>; and setting \<^verbatim>\<open>lod\<close> to \<open>1/2\<close> while the rebuild
  runs stores \<open>1/2\<close>, yet leaves no callback pending and the flag clear.
\<close>

theorem dirty_cleared_before_rebuild_counterexample:
  "map_sum id this_dirty (buildGrid exact (plane_2x2\<lparr>pending := 0\<rparr>)) = Inr True \<and>
   map_sum id (\<lambda>this'. (this_lod this', this_dirty this', pending this'))
     (tick2_callback_during exact (set_lod (Num (1 / 2))) (plane_2x2\<lparr>pending := 0\<rparr>))
   = Inr (Num (1 / 2), False, 0)"
proof -
  have a: "never_negative (plane_2x2\<lparr>pending := 0\<rparr>)"
    by (simp add: plane_2x2_fields never_negative_def)
  have g: "gridX1 (grid_of exact (plane_2x2\<lparr>pending := 0\<rparr>)) *
     gridY1 (grid_of exact (plane_2x2\<lparr>pending := 0\<rparr>)) \<le> 4294967296"
    by (simp add: grid_of_pending plane_2x2_grid)
  from tick2_callback_during_Inr [OF a sound_rounding_exact g, of "set_lod (Num (1 / 2))"]
  obtain b where b: "buildGrid exact (plane_2x2\<lparr>pending := 0\<rparr>) = Inr b"
    "tick2_callback_during exact (set_lod (Num (1 / 2))) (plane_2x2\<lparr>pending := 0\<rparr>) =
       Inr ((set_lod (Num (1 / 2)) b)\<lparr>this_dirty := False\<rparr>)"
    "this_dirty b" "pending b = 0" "this_lod b = Num 1"
    by (auto simp add: plane_2x2_fields)
  have "this_lod (set_lod (Num (1 / 2)) b) = Num (1 / 2)" "pending (set_lod (Num (1 / 2)) b) = 0"
    using b(3-5) by (simp_all add: set_lod_def setter_defs)
  with b show ?thesis by simp
qed

text \<open>
  C7. Setting any of the five properties to a value strictly equal to its stored value
  returns the component unchanged: not marked dirty, no callback registered, no event
  fired, no warning. The value is one the setter does not replace by its default
  (not \<^verbatim>\<open>undefined\<close> for \<^verbatim>\<open>lod\<close>, truthy for the others); on a sanitised component
  every stored value is such a value.
\<close>

theorem setter_noop_guard:
  "(strict_eq (this_lod this) v \<and> v \<noteq> Undefined \<longrightarrow> set_lod v this = this) \<and>
   (strict_eq (this_xSize this) v \<and> truthy v \<longrightarrow> set_xSize v this = this) \<and>
   (strict_eq (this_ySize this) v \<and> truthy v \<longrightarrow> set_ySize v this = this) \<and>
   (strict_eq (this_xSegments this) v \<and> truthy v \<longrightarrow> set_xSegments v this = this) \<and>
   (strict_eq (this_ySegments this) v \<and> truthy v \<longrightarrow> set_ySegments v this = this) \<and>
   (sanitized this \<longrightarrow>
      set_lod (this_lod this) this = this \<and>
      set_xSize (this_xSize this) this = this \<and>
      set_ySize (this_ySize this) this = this \<and>
      set_xSegments (this_xSegments this) this = this \<and>
      set_ySegments (this_ySegments this) this = this)"
proof -
  have same: "set_lod (this_lod this) this = this \<and>
      set_xSize (this_xSize this) this = this \<and>
      set_ySize (this_ySize this) this = this \<and>
      set_xSegments (this_xSegments this) this = this \<and>
      set_ySegments (this_ySegments this) this = this" if s: "sanitized this"
  proof -
    from s obtain l where "this_lod this = Num l"
      unfolding sanitized_def by (blast dest: unit_intervalD)
    moreover from s obtain w where "this_xSize this = Num w" "w \<noteq> 0"
      unfolding sanitized_def by (fastforce dest: positiveD)
    moreover from s obtain h where "this_ySize this = Num h" "h \<noteq> 0"
      unfolding sanitized_def by (fastforce dest: positiveD)
    moreover from s obtain xs where "this_xSegments this = Num xs" "xs \<noteq> 0"
      unfolding sanitized_def by (fastforce dest: positiveD)
    moreover from s obtain ys where "this_ySegments this = Num ys" "ys \<noteq> 0"
      unfolding sanitized_def by (fastforce dest: positiveD)
    ultimately show ?thesis
      by (simp add: set_lod_same set_xSize_same set_ySize_same set_xSegments_same
          set_ySegments_same)
  qed
  show ?thesis
    using same
    by (simp add: set_lod_guard set_xSize_guard set_ySize_guard set_xSegments_guard
        set_ySegments_guard js_or_def)
qed

theorem setter_noop_guard_witness:
  "strict_eq (this_lod plane_2x2) (Num 1) \<and> Num 1 \<noteq> Undefined \<and>
   strict_eq (this_xSize plane_2x2) (Num 2) \<and> strict_eq (this_ySize plane_2x2) (Num 2) \<and>
   truthy (Num 2) \<and> strict_eq (this_xSegments plane_2x2) (Num 1) \<and> truthy (Num 1) \<and>
   strict_eq (this_ySegments plane_2x2) (Num 4) \<and> truthy (Num 4) \<and>
   sanitized plane_2x2 \<and>
   set_lod (Num 1) plane_2x2 = plane_2x2 \<and> set_xSize (Num 2) plane_2x2 = plane_2x2 \<and>
   set_ySize (Num 2) plane_2x2 = plane_2x2 \<and> set_xSegments (Num 1) plane_2x2 = plane_2x2 \<and>
   set_ySegments (Num 4) plane_2x2 = plane_2x2"
  using setter_noop_guard [of plane_2x2 "Num 1"] setter_noop_guard [of plane_2x2 "Num 2"]
    setter_noop_guard [of plane_2x2 "Num 4"]
  by (simp add: sanitized_plane_2x2 plane_2x2_fields)

text \<open>
  C8. Setting \<^verbatim>\<open>lod\<close> to \<open>-0.5\<close> stores 0 and setting it to \<open>1.5\<close> stores 1, each with
  the clamping warning; setting it to \<^verbatim>\<open>undefined\<close> stores the default 1 without a
  warning. The stored value before the call is any that the setters can have left.
\<close>

theorem lod_clamp:
  assumes "lod_in_range (this_lod this)"
  shows "this_lod (set_lod (Num (- 1 / 2)) this) = Num 0 \<and>
         warnings (set_lod (Num (- 1 / 2)) this) = warnings this @ [''clamping lod to [0..1]''] \<and>
         this_lod (set_lod (Num (3 / 2)) this) = Num 1 \<and>
         warnings (set_lod (Num (3 / 2)) this) = warnings this @ [''clamping lod to [0..1]''] \<and>
         this_lod (set_lod Undefined this) = Num 1 \<and>
         warnings (set_lod Undefined this) = warnings this"
  using assms by (cases "this_lod this") (auto simp: lod_in_range_def set_lod_def setter_defs)

theorem lod_clamp_witness:
  "lod_in_range (this_lod plane_2x2) \<and>
   this_lod (set_lod (Num (- 1 / 2)) plane_2x2) = Num 0 \<and>
   warnings (set_lod (Num (- 1 / 2)) plane_2x2) = [''clamping lod to [0..1]''] \<and>
   this_lod (set_lod (Num (3 / 2)) plane_2x2) = Num 1 \<and>
   warnings (set_lod (Num (3 / 2)) plane_2x2) = [''clamping lod to [0..1]''] \<and>
   this_lod (set_lod Undefined plane_2x2) = Num 1 \<and>
   warnings (set_lod Undefined plane_2x2) = []"
  using lod_clamp [of plane_2x2]
  by (simp add: lod_in_range_def plane_2x2_fields)

text \<open>
  C9. On a clean component (not dirty, no callback pending) a setter call that is not
  stopped by its guard registers exactly one callback, and whatever setter calls follow
  before the tick register none. When the grid of the parameters then stored is one the
  typed arrays can hold, of at most \<open>2^32\<close> vertices, the next tick runs exactly one
  rebuild, after which the component is clean again.
\<close>

theorem rebuild_coalescing:
  assumes "\<not> this_dirty this" and "pending this = 0"
    and "apply_call c this \<noteq> this"
    and "never_negative this" and "sound_rounding fp"
  shows "pending (apply_call c this) = 1 \<and>
         pending (apply_calls cs (apply_call c this)) = 1 \<and>
         (gridX1 (grid_of fp (apply_calls cs (apply_call c this))) *
            gridY1 (grid_of fp (apply_calls cs (apply_call c this))) \<le> 4294967296 \<longrightarrow>
          (\<exists>this'. tick2 fp (apply_calls cs (apply_call c this)) = Inr this' \<and>
             rebuilds this' = rebuilds this + 1 \<and> pending this' = 0 \<and> \<not> this_dirty this'))"
proof -
  from apply_call_cases [of c this] assms(1-3)
  have first: "this_dirty (apply_call c this)" "pending (apply_call c this) = 1"
    by auto
  from apply_calls_dirty [OF first(1), of cs] first(2)
  have later: "pending (apply_calls cs (apply_call c this)) = 1"
    by simp
  have nn: "never_negative (apply_calls cs (apply_call c this))"
    by (intro apply_calls_never_negative apply_call_never_negative assms(4))
  from tick2_once [OF nn assms(5) later] first(2) later show ?thesis
    by (simp add: apply_calls_rebuilds apply_call_rebuilds)
qed

theorem rebuild_coalescing_witness:
  "\<not> this_dirty new_plane \<and> pending new_plane = 0 \<and>
   apply_call (SetXSize (Num 2)) new_plane \<noteq> new_plane \<and>
   never_negative new_plane \<and> sound_rounding exact \<and>
   pending (apply_call (SetXSize (Num 2)) new_plane) = 1 \<and>
   pending (apply_calls [SetLod (Num (1 / 2))] (apply_call (SetXSize (Num 2)) new_plane)) = 1 \<and>
   gridX1 (grid_of exact (apply_calls [SetLod (Num (1 / 2))]
       (apply_call (SetXSize (Num 2)) new_plane))) *
     gridY1 (grid_of exact (apply_calls [SetLod (Num (1 / 2))]
       (apply_call (SetXSize (Num 2)) new_plane))) \<le> 4294967296 \<and>
   (\<exists>this'. tick2 exact (apply_calls [SetLod (Num (1 / 2))]
                (apply_call (SetXSize (Num 2)) new_plane)) = Inr this' \<and>
      rebuilds this' = 1 \<and> pending this' = 0 \<and> \<not> this_dirty this')"
proof -
  have c: "\<not> this_dirty new_plane" "pending new_plane = 0" "rebuilds new_plane = 0"
    by (simp_all add: new_plane_def)
  have e: "apply_call (SetXSize (Num 2)) new_plane \<noteq> new_plane"
    by (simp add: new_plane_def set_xSize_def setter_defs)
  have "grid_of exact (apply_calls [SetLod (Num (1 / 2))]
       (apply_call (SetXSize (Num 2)) new_plane)) =
     \<lparr>gridX = 1, gridY = 1, gridX1 = 2, gridY1 = 2, segmentWidth = Num 2,
      segmentHeight = NaN, halfWidth = Num 1, halfHeight = NaN\<rparr>"
    by (simp add: new_plane_def set_xSize_def set_lod_def setter_defs grid_of_def
        grid_count_def exact_sel)
  then have g: "gridX1 (grid_of exact (apply_calls [SetLod (Num (1 / 2))]
       (apply_call (SetXSize (Num 2)) new_plane))) *
     gridY1 (grid_of exact (apply_calls [SetLod (Num (1 / 2))]
       (apply_call (SetXSize (Num 2)) new_plane))) \<le> 4294967296"
    by simp
  from rebuild_coalescing [OF c(1,2) e never_negative_new_plane sound_rounding_exact,
      of "[SetLod (Num (1 / 2))]"]
  show ?thesis
    using c e g never_negative_new_plane sound_rounding_exact by simp
qed

text \<open>
  C10. Each setter is a no-op exactly when the input, after defaulting and before the clamp
  or the sign flip, is strictly equal to the stored value. So setting \<^verbatim>\<open>lod\<close> to a number
  below 0 when 0 is stored, or above 1 when 1 is stored, and setting a size or a segment
  count to the negation of its positive stored value, leave the stored value as it was,
  mark the grid dirty, register a callback unless one is pending already, and fire the
  event with the stored value as payload.
\<close>

theorem guard_precedes_sanitisation:
  "(set_lod v this = this) = strict_eq (this_lod this) (if v \<noteq> Undefined then v else Num 1) \<and>
   (set_xSize v this = this) = strict_eq (this_xSize this) (js_or v (Num 1)) \<and>
   (set_ySize v this = this) = strict_eq (this_ySize this) (js_or v (Num (1 / 4))) \<and>
   (set_xSegments v this = this) = strict_eq (this_xSegments this) (js_or v (Num 4)) \<and>
   (set_ySegments v this = this) = strict_eq (this_ySegments this) (js_or v (Num 4)) \<and>
   (this_lod this = Num l \<and> ((x < 0 \<and> l = 0) \<or> (1 < x \<and> l = 1)) \<longrightarrow>
      this_lod (set_lod (Num x) this) = Num l \<and>
      notified ''lod'' (Num l) this (set_lod (Num x) this)) \<and>
   (this_xSize this = Num w \<and> 0 < w \<longrightarrow>
      this_xSize (set_xSize (Num (- w)) this) = Num w \<and>
      notified ''xSize'' (Num w) this (set_xSize (Num (- w)) this)) \<and>
   (this_ySize this = Num h \<and> 0 < h \<longrightarrow>
      this_ySize (set_ySize (Num (- h)) this) = Num h \<and>
      notified ''ySize'' (Num h) this (set_ySize (Num (- h)) this)) \<and>
   (this_xSegments this = Num xs \<and> 0 < xs \<longrightarrow>
      this_xSegments (set_xSegments (Num (- xs)) this) = Num xs \<and>
      notified ''xSegments'' (Num xs) this (set_xSegments (Num (- xs)) this)) \<and>
   (this_ySegments this = Num ys \<and> 0 < ys \<longrightarrow>
      this_ySegments (set_ySegments (Num (- ys)) this) = Num ys \<and>
      notified ''ySegments'' (Num ys) this (set_ySegments (Num (- ys)) this))"
  using set_lod_clamped_same [of this l x] set_xSize_negated [of this w]
    set_ySize_negated [of this h] set_xSegments_negated [of this xs]
    set_ySegments_negated [of this ys]
  by (simp only: set_lod_guard set_xSize_guard set_ySize_guard set_xSegments_guard
      set_ySegments_guard) blast

theorem guard_precedes_sanitisation_witness:
  "this_lod plane_2x2 = Num 1 \<and> (1::real) < 3 / 2 \<and>
   this_xSize plane_2x2 = Num 2 \<and> this_ySize plane_2x2 = Num 2 \<and>
   this_xSegments plane_2x2 = Num 1 \<and> this_ySegments plane_2x2 = Num 4 \<and> (0::real) < 2 \<and>
   this_lod (set_lod (Num (3 / 2)) plane_2x2) = Num 1 \<and>
   notified ''lod'' (Num 1) plane_2x2 (set_lod (Num (3 / 2)) plane_2x2) \<and>
   this_xSize (set_xSize (Num (- 2)) plane_2x2) = Num 2 \<and>
   notified ''xSize'' (Num 2) plane_2x2 (set_xSize (Num (- 2)) plane_2x2) \<and>
   this_ySize (set_ySize (Num (- 2)) plane_2x2) = Num 2 \<and>
   notified ''ySize'' (Num 2) plane_2x2 (set_ySize (Num (- 2)) plane_2x2) \<and>
   this_xSegments (set_xSegments (Num (- 1)) plane_2x2) = Num 1 \<and>
   notified ''xSegments'' (Num 1) plane_2x2 (set_xSegments (Num (- 1)) plane_2x2) \<and>
   this_ySegments (set_ySegments (Num (- 4)) plane_2x2) = Num 4 \<and>
   notified ''ySegments'' (Num 4) plane_2x2 (set_ySegments (Num (- 4)) plane_2x2)"
  using guard_precedes_sanitisation [where this = plane_2x2 and l = 1 and x = "3 / 2"
      and w = 2 and h = 2 and xs = 1 and ys = 4]
  by (simp add: plane_2x2_fields)

end
